theory Spec2Isabelle
  imports Complex_Main "HOL-Library.Char_ord" "HOL-Library.List_Lexorder"
    "HOL-Library.Product_Lexorder" "HOL-Library.Option_ord"
begin

section \<open>Errors and numbers\<close>

text \<open>
  Every exception the modelled code raises is a value. \<open>MuRETException\<close> and the plain
  \<open>Exception\<close> carry their message, since callers and claims read the label in it.
\<close>

datatype error =
    ValueError
  | AttributeError
  | ZeroDivisionError
  | KeyError
  | TypeError
  | IOError
  | JSONDecodeError
  | AssertionError
  | MuRETException string
  | Exception string

text \<open>
  A Python number is modelled by the rational it denotes. \<open>round_half_even\<close> is the nearest
  integer, a tie going to the even neighbour.
\<close>

definition round_half_even :: "rat \<Rightarrow> int" where
  "round_half_even x =
     (let f = \<lfloor>x\<rfloor>; r = x - of_int f
      in if r < 1 / 2 then f
         else if 1 / 2 < r then f + 1
         else if even f then f else f + 1)"

text \<open>
  A Python \<open>float\<close> is an IEEE 754 binary64 number, and an arithmetic operation on floats
  returns the float nearest to the exact result, a tie going to the float whose significand
  is even. \<open>fl\<close> is that rounding. A float has 53 significant bits: for a number between
  \<open>2 ^ e\<close> and \<open>2 ^ (e + 1)\<close> the floats are the multiples of \<open>2 ^ (e - 52)\<close>; below
  \<open>2 ^ -1022\<close> they are the multiples of \<open>2 ^ -1074\<close> (the subnormal numbers). A result of
  magnitude \<open>2 ^ 1024\<close> or more, which Python turns into \<open>inf\<close>, is outside the model.

  \<open>bit_length\<close> is \<open>int.bit_length\<close> on positive ints, \<open>pow2 k\<close> is \<open>2 ^ k\<close> for an integer
  \<open>k\<close> of either sign, and \<open>ilog2 x\<close> is the exponent \<open>e\<close> with \<open>2 ^ e \<le> x < 2 ^ (e + 1)\<close> of a
  positive number.
\<close>

function bit_length :: "int \<Rightarrow> int" where
  "bit_length i = (if i \<le> 0 then 0 else 1 + bit_length (i div 2))"
  by auto
termination
  by (relation "measure nat") auto
declare bit_length.simps [simp del]

definition pow2 :: "int \<Rightarrow> rat" where
  "pow2 k = (if 0 \<le> k then 2 ^ nat k else 1 / 2 ^ nat (- k))"

definition ilog2 :: "rat \<Rightarrow> int" where
  "ilog2 x = (if 1 \<le> x then bit_length \<lfloor>x\<rfloor> - 1 else - bit_length (\<lceil>1 / x\<rceil> - 1))"

definition fl :: "rat \<Rightarrow> rat" where
  "fl x = (if x = 0 then 0
           else (let q = pow2 (max (ilog2 \<bar>x\<bar> - 52) (- 1074))
                 in of_int (round_half_even (x / q)) * q))"

text \<open>
  An \<open>int\<close> is modelled by its value too, and the operations below round every result
  with \<open>fl\<close>. On ints Python computes \<open>+\<close>, \<open>-\<close> and \<open>*\<close> exactly and rounds the quotient of
  \<open>/\<close> once, which is what rounding with \<open>fl\<close> gives as long as the ints and the results
  are below \<open>2 ^ 53\<close> in magnitude, where every integer is a float.

  \<open>round(x, n)\<close> on a float rounds its exact value to the nearest multiple of \<open>10 ^ -n\<close>, a
  tie going to the even neighbour (\<open>dec_round\<close>), and returns the float nearest to that
  decimal number.
\<close>

definition dec_round :: "rat \<Rightarrow> nat \<Rightarrow> rat" where
  "dec_round x n = of_int (round_half_even (x * 10 ^ n)) / 10 ^ n"

definition py_round :: "rat \<Rightarrow> nat \<Rightarrow> rat" where
  "py_round x n = fl (dec_round x n)"

section \<open>entities/YOLO/BoundigBox.py\<close>

definition SUPPORTED_OD_FORMATS :: "string list" where
  "SUPPORTED_OD_FORMATS = [''yolo'', ''coco'', ''pascal'']"

text \<open>
  The four numbers of the source are the attributes \<open>a\<close>, \<open>b\<close>, \<open>c\<close>, \<open>d\<close>; the fields carry
  the prefix \<open>box_\<close> here so that single letters stay free for variables.
\<close>

record BoundingBox =
  box_a :: rat
  box_b :: rat
  box_c :: rat
  box_d :: rat
  current_format :: string

record Dimensions =
  width :: rat
  height :: rat

definition BoundingBox_init :: "rat \<Rightarrow> rat \<Rightarrow> rat \<Rightarrow> rat \<Rightarrow> string \<Rightarrow> error + BoundingBox" where
  "BoundingBox_init a b c d fmt =
     (if fmt \<notin> set SUPPORTED_OD_FORMATS then Inl ValueError
      else Inr \<lparr>box_a = a, box_b = b, box_c = c, box_d = d, current_format = fmt\<rparr>)"


definition to_yolo :: "BoundingBox \<Rightarrow> Dimensions option \<Rightarrow> error + BoundingBox" where
  "to_yolo box img_dims =
     (if current_format box = ''yolo'' then Inr box
      else case img_dims of
        None \<Rightarrow> Inl ValueError
      | Some dims \<Rightarrow>
          (let img_width = width dims; img_height = height dims;
               (x_center, y_center, w, h) =
                 (if current_format box = ''pascal''
                  then (fl (fl (box_a box + box_c box) / 2), fl (fl (box_b box + box_d box) / 2),
                        fl (box_c box - box_a box), fl (box_d box - box_b box))
                  else (fl (box_a box + fl (box_c box / 2)), fl (box_b box + fl (box_d box / 2)),
                        box_c box, box_d box))
           in if img_width = 0 \<or> img_height = 0 then Inl ZeroDivisionError
              else BoundingBox_init
                     (py_round (fl (x_center / img_width)) 5)
                     (py_round (fl (y_center / img_height)) 5)
                     (py_round (fl (w / img_width)) 5)
                     (py_round (fl (h / img_height)) 5)
                     ''yolo''))"

definition to_coco :: "BoundingBox \<Rightarrow> Dimensions option \<Rightarrow> error + BoundingBox" where
  "to_coco box img_dims =
     (if current_format box = ''coco'' then Inr box
      else if current_format box = ''yolo'' then
        (case img_dims of
           None \<Rightarrow> Inl ValueError
         | Some dims \<Rightarrow>
             (let img_width = width dims; img_height = height dims;
                  w = fl (box_c box * img_width);
                  h = fl (box_d box * img_height);
                  x = fl (fl (box_a box * img_width) - fl (w / 2));
                  y = fl (fl (box_b box * img_height) - fl (h / 2))
              in BoundingBox_init x y w h ''coco''))
      else BoundingBox_init (box_a box) (box_b box)
             (fl (box_c box - box_a box)) (fl (box_d box - box_b box)) ''coco'')"

definition to_pascal :: "BoundingBox \<Rightarrow> Dimensions option \<Rightarrow> error + BoundingBox" where
  "to_pascal box img_dims =
     (if current_format box = ''pascal'' then Inr box
      else if current_format box = ''yolo'' then
        (case img_dims of
           None \<Rightarrow> Inl ValueError
         | Some dims \<Rightarrow>
             (let img_width = width dims; img_height = height dims;
                  w = fl (box_c box * img_width);
                  h = fl (box_d box * img_height);
                  x = fl (fl (box_a box * img_width) - fl (w / 2));
                  y = fl (fl (box_b box * img_height) - fl (h / 2));
                  x2 = fl (x + w);
                  y2 = fl (y + h)
              in BoundingBox_init x y x2 y2 ''pascal''))
      else BoundingBox_init (box_a box) (box_b box)
             (fl (box_a box + box_c box)) (fl (box_b box + box_d box)) ''pascal'')"

text \<open>
  \<open>to\<close> looks the method up by name: \<open>getattr(self, f'to_{format}')\<close>. The names of a
  \<open>BoundingBox\<close> that begin with \<open>to_\<close> are the three conversions; its other attributes
  (\<open>a\<close>, \<open>b\<close>, \<open>c\<close>, \<open>d\<close>, \<open>current_format\<close>, \<open>from_MuRET\<close>, \<open>resize\<close>, \<open>to\<close> and the
  methods inherited from \<open>object\<close>) do not, so the table below is all a lookup of
  \<open>to_<format>\<close> can find. A missing name raises \<open>AttributeError\<close>.
\<close>

definition BoundingBox_to_attrs ::
  "(string \<times> (BoundingBox \<Rightarrow> Dimensions option \<Rightarrow> error + BoundingBox)) list" where
  "BoundingBox_to_attrs =
     [(''to_yolo'', to_yolo), (''to_coco'', to_coco), (''to_pascal'', to_pascal)]"

definition to :: "BoundingBox \<Rightarrow> string \<Rightarrow> Dimensions option \<Rightarrow> error + BoundingBox" where
  "to box fmt img_dims =
     (case map_of BoundingBox_to_attrs (''to_'' @ fmt) of
        None \<Rightarrow> Inl AttributeError
      | Some method \<Rightarrow> method box img_dims)"

text \<open>
  \<open>str\<close> of a Python \<open>int\<close>: decimal digits, a minus sign before a negative number.
\<close>

definition digit_char :: "nat \<Rightarrow> char" where
  "digit_char n = ''0123456789'' ! n"

fun str_nat :: "nat \<Rightarrow> string" where
  "str_nat n = (if n < 10 then [digit_char n] else str_nat (n div 10) @ [digit_char (n mod 10)])"
declare str_nat.simps [simp del]

definition str_int :: "int \<Rightarrow> string" where
  "str_int i = (if i < 0 then CHR ''-'' # str_nat (nat (- i)) else str_nat (nat i))"

section \<open>entities/MuRET/Dictionary.py\<close>

text \<open>
  A label is a \<open>str\<close>, as the annotations of the class say. \<open>list.index\<close> gives the first
  position of an element; \<open>add\<close> calls it on the label it has just appended, so the
  \<open>ValueError\<close> of a missing element cannot arise there. In \<open>label\<close> the test
  \<open>result is None\<close> is never true of a \<open>str\<close> and has no branch in the model.
\<close>

record Dictionary =
  label_list :: "string list"
  inverted :: "string \<rightharpoonup> nat"

fun list_index :: "'a list \<Rightarrow> 'a \<Rightarrow> nat" where
  "list_index [] x = 0"
| "list_index (y # ys) x = (if y = x then 0 else Suc (list_index ys x))"

definition Dictionary_add :: "Dictionary \<Rightarrow> string \<Rightarrow> Dictionary" where
  "Dictionary_add self lbl =
     (if lbl \<notin> set (label_list self)
      then (let appended = label_list self @ [lbl]
            in \<lparr>label_list = appended,
                inverted = (inverted self)(lbl \<mapsto> list_index appended lbl)\<rparr>)
      else self)"

definition Dictionary_init :: "string list \<Rightarrow> Dictionary" where
  "Dictionary_init labels = foldl Dictionary_add \<lparr>label_list = [], inverted = Map.empty\<rparr> labels"

definition Dictionary_size :: "Dictionary \<Rightarrow> int" where
  "Dictionary_size self = int (length (label_list self))"

definition Dictionary_contains :: "Dictionary \<Rightarrow> string \<Rightarrow> bool" where
  "Dictionary_contains self lbl = (inverted self lbl \<noteq> None)"

definition Dictionary_index_of :: "Dictionary \<Rightarrow> string \<Rightarrow> error + int" where
  "Dictionary_index_of self lbl =
     (case inverted self lbl of
        None \<Rightarrow> Inl (MuRETException (''Label \"'' @ lbl @ ''\" not found in dictionary''))
      | Some i \<Rightarrow> Inr (int i))"

definition Dictionary_label :: "Dictionary \<Rightarrow> int \<Rightarrow> error + string" where
  "Dictionary_label self index =
     (if index < 0 then Inl (MuRETException (''Negative index '' @ str_int index))
      else if index \<ge> int (length (label_list self))
      then Inl (MuRETException (''Index >= '' @ str_int (int (length (label_list self)))))
      else Inr (label_list self ! nat index))"


text \<open>The invariant of the class: the labels are distinct and the inverse map sends each
  label to its position in the list, and nothing else to anything.\<close>

definition dict_inv :: "Dictionary \<Rightarrow> bool" where
  "dict_inv self \<longleftrightarrow>
     distinct (label_list self)
     \<and> (\<forall>lbl. inverted self lbl =
           (if lbl \<in> set (label_list self) then Some (list_index (label_list self) lbl) else None))"

text \<open>
  First-seen order, as the specification words it: every element once, at the place of its
  first occurrence.
\<close>

fun first_seen :: "'a list \<Rightarrow> 'a list" where
  "first_seen [] = []"
| "first_seen (x # xs) = x # filter (\<lambda>y. y \<noteq> x) (first_seen xs)"

text \<open>
  \<open>str\<close> of a Python \<open>float\<close> (its \<open>repr\<close>), for the floats this pipeline prints: the
  results of \<open>round(x, n)\<close> with \<open>n \<le> 5\<close>, which are multiples of \<open>10^-5\<close>. Such a float
  prints as its integer part, a point and its decimals without trailing zeros (at least
  one decimal), and a non-zero value below \<open>10^-4\<close> in scientific notation (\<open>3e-05\<close>).
  A rational with more decimals is printed here rounded to 5 decimals.
\<close>

definition frac_digits :: "nat \<Rightarrow> string" where
  "frac_digits fp =
     (let ds = [digit_char (fp div 10000 mod 10), digit_char (fp div 1000 mod 10),
                digit_char (fp div 100 mod 10), digit_char (fp div 10 mod 10),
                digit_char (fp mod 10)];
          stripped = rev (dropWhile (\<lambda>ch. ch = CHR ''0'') (rev ds))
      in if stripped = [] then ''0'' else stripped)"

definition str_float :: "rat \<Rightarrow> string" where
  "str_float x =
     (let k = round_half_even (x * 100000);
          m = nat \<bar>k\<bar>;
          sgn = (if k < 0 then ''-'' else '''')
      in if m \<noteq> 0 \<and> m < 10 then sgn @ [digit_char m] @ ''e-05''
         else sgn @ str_nat (m div 100000) @ ''.'' @ frac_digits (m mod 100000))"

section \<open>utils/data.py\<close>

text \<open>
  The fractions are floats, as the transcoder passes them (\<open>0.7\<close>, \<open>0.2\<close>, \<open>0.1\<close>). The sum
  is two float additions, the product \<open>len(dataset) * splits.train\<close> converts the length to
  a float and is one float multiplication, and \<open>math.floor\<close> of a float is the exact floor
  of its value.
\<close>

record Splits =
  train :: rat
  validation :: rat
  test :: rat

record 'a Partition =
  train_list :: "'a list"
  validation_list :: "'a list"
  test_list :: "'a list"

text \<open>
  A Python slice \<open>xs[lo:hi]\<close>: a negative bound counts from the end, every bound is
  clamped to \<open>0 .. len(xs)\<close>, a missing bound is the end on its side, and the slice is
  empty when the lower bound is not below the upper one.
\<close>

definition slice_bound :: "nat \<Rightarrow> int \<Rightarrow> nat" where
  "slice_bound n i = (if i < 0 then nat (max (i + int n) 0) else min (nat i) n)"

definition py_slice :: "'a list \<Rightarrow> int option \<Rightarrow> int option \<Rightarrow> 'a list" where
  "py_slice xs lo hi =
     (let n = length xs;
          l = (case lo of None \<Rightarrow> 0 | Some i \<Rightarrow> slice_bound n i);
          h = (case hi of None \<Rightarrow> n | Some j \<Rightarrow> slice_bound n j)
      in take (h - l) (drop l xs))"

definition PartitionManager_partition :: "'a list \<Rightarrow> Splits \<Rightarrow> error + 'a Partition" where
  "PartitionManager_partition dataset splits =
     (let sum_split = py_round (fl (fl (train splits + validation splits) + test splits)) 2
      in if sum_split \<noteq> 1
         then Inl (MuRETException
                (''The sum of all splits should be 1, and it is '' @ str_float sum_split))
         else
           (let idx_split_1 = \<lfloor>fl (fl (of_nat (length dataset)) * train splits)\<rfloor>;
                idx_split_2 =
                  idx_split_1 + \<lfloor>fl (fl (of_nat (length dataset)) * validation splits)\<rfloor>
            in Inr \<lparr>train_list = py_slice dataset None (Some idx_split_1),
                    validation_list = py_slice dataset (Some idx_split_1) (Some idx_split_2),
                    test_list = py_slice dataset (Some idx_split_2) None\<rparr>))"

section \<open>entities/YOLO/Object.py and entities/YOLO/Image.py\<close>

text \<open>
  A detection object holds a reference to its bounding box, and the box it is built from
  is the very box of a page or region of the loaded graph. Boxes therefore live in a
  store, a list addressed by position; \<open>resize\<close> overwrites the box at its address, and a
  conversion that builds a new box allocates it at the end of the store. A conversion to
  the format the box already has returns the same object, so the address stays.
\<close>

type_synonym ref = nat
type_synonym heap = "BoundingBox list"

record Object =
  label :: int
  bounding_box :: ref




text \<open>
  The image array is modelled by its \<open>shape\<close>, rows first; its pixels play no part here.
\<close>

record ImageYOLO =
  file_name :: string
  image_array :: "nat \<times> nat"
  objects :: "Object list"
  img_dims :: Dimensions






section \<open>transcoders/MuRET2YOLO.py: writing an image\<close>






section \<open>Decoded JSON\<close>

text \<open>
  What \<open>json.loads\<close> returns. An object is the list of its members, each key once;
  a number is an exact rational.
\<close>

datatype json =
    JNull
  | JBool bool
  | JNum rat
  | JStr string
  | JArr "json list"
  | JObj "(string \<times> json) list"

text \<open>
  \<open>value[key]\<close> for a key that is a \<open>str\<close> or \<open>None\<close>: a missing key of a \<open>dict\<close> is a
  \<open>KeyError\<close>; a list, a string, a number, a boolean and \<open>None\<close> raise \<open>TypeError\<close> for
  such a key.
\<close>

fun json_getitem :: "json \<Rightarrow> string option \<Rightarrow> error + json" where
  "json_getitem (JObj members) (Some key) =
     (case map_of members key of None \<Rightarrow> Inl KeyError | Some v \<Rightarrow> Inr v)"
| "json_getitem (JObj members) None = Inl KeyError"
| "json_getitem _ _ = Inl TypeError"

fun is_substring :: "string \<Rightarrow> string \<Rightarrow> bool" where
  "is_substring s [] = (s = [])"
| "is_substring s (ch # rest) = (take (length s) (ch # rest) = s \<or> is_substring s rest)"

text \<open>
  \<open>key in value\<close> for a \<open>str\<close> key: a key of a \<open>dict\<close>, an element of a list, a substring of
  a string; the other values are not containers and raise \<open>TypeError\<close>.
\<close>

fun json_in :: "string \<Rightarrow> json \<Rightarrow> error + bool" where
  "json_in key (JObj members) = Inr (key \<in> set (map fst members))"
| "json_in key (JArr elems) = Inr (JStr key \<in> set elems)"
| "json_in key (JStr s) = Inr (is_substring key s)"
| "json_in key _ = Inl TypeError"

text \<open>
  \<open>for x in value\<close>: the elements of a list, the keys of a \<open>dict\<close>, the characters of a
  string.
\<close>

fun json_iter :: "json \<Rightarrow> error + json list" where
  "json_iter (JArr elems) = Inr elems"
| "json_iter (JObj members) = Inr (map (\<lambda>m. JStr (fst m)) members)"
| "json_iter (JStr s) = Inr (map (\<lambda>ch. JStr [ch]) s)"
| "json_iter _ = Inl TypeError"

text \<open>
  The entities are typed: a label is a \<open>str\<close> and a coordinate is a number. Python does
  not check this when it stores a value; the model raises \<open>TypeError\<close> at the point where
  a value of another kind would be stored as a label or as a coordinate.
\<close>

fun as_label :: "json \<Rightarrow> error + string" where
  "as_label (JStr s) = Inr s"
| "as_label _ = Inl TypeError"

fun as_number :: "json \<Rightarrow> error + rat" where
  "as_number (JNum x) = Inr x"
| "as_number _ = Inl TypeError"

fun as_labels :: "json list \<Rightarrow> error + string list" where
  "as_labels [] = Inr []"
| "as_labels (v # vs) =
     (case as_label v of
        Inl e \<Rightarrow> Inl e
      | Inr l \<Rightarrow> (case as_labels vs of Inl e \<Rightarrow> Inl e | Inr ls \<Rightarrow> Inr (l # ls)))"

section \<open>entities/MuRET: the object graph\<close>

text \<open>
  Bounding boxes are held by reference. The attribute \<open>bounding_box\<close> of a symbol, a region
  and a page and the attribute \<open>type\<close> of a region carry the entity's name as a prefix.
\<close>

record AgnosticSymbol =
  agnostic_symbol_type :: string
  position_in_staff :: string
  symbol_bounding_box :: "ref option"
  approximate_x :: "json option"

record Region =
  region_bounding_box :: ref
  semantic_encoding :: "json option"
  region_type :: string
  symbols :: "AgnosticSymbol list"

record Page =
  regions :: "Region list"
  page_bounding_box :: ref

record ImageMuRET =
  ID :: json
  url :: json
  filename :: json
  pages :: "Page list"

definition BoundingBox_from_MuRET :: "heap \<Rightarrow> json \<Rightarrow> (error + ref) \<times> heap" where
  "BoundingBox_from_MuRET h bbox =
     (case json_getitem bbox (Some ''fromX'') of Inl e \<Rightarrow> (Inl e, h) | Inr fromX \<Rightarrow>
      case json_getitem bbox (Some ''fromY'') of Inl e \<Rightarrow> (Inl e, h) | Inr fromY \<Rightarrow>
      case json_getitem bbox (Some ''toX'') of Inl e \<Rightarrow> (Inl e, h) | Inr toX \<Rightarrow>
      case json_getitem bbox (Some ''toY'') of Inl e \<Rightarrow> (Inl e, h) | Inr toY \<Rightarrow>
      case as_number fromX of Inl e \<Rightarrow> (Inl e, h) | Inr x1 \<Rightarrow>
      case as_number fromY of Inl e \<Rightarrow> (Inl e, h) | Inr y1 \<Rightarrow>
      case as_number toX of Inl e \<Rightarrow> (Inl e, h) | Inr x2 \<Rightarrow>
      case as_number toY of Inl e \<Rightarrow> (Inl e, h) | Inr y2 \<Rightarrow>
      case BoundingBox_init x1 y1 x2 y2 ''pascal'' of
        Inl e \<Rightarrow> (Inl e, h)
      | Inr box \<Rightarrow> (Inr (length h), h @ [box]))"

section \<open>entities/MuRET/Package.py\<close>

record DatasetFile =
  folder_structure :: "string option"
  name :: string
  json_contents :: json

record Package =
  region_types :: Dictionary
  agnostic_symbol_types :: Dictionary
  agnostic_positions_in_staff :: Dictionary
  training_set_images :: "ImageMuRET list"

text \<open>
  \<open>read_file\<close> is three nested loops. Each loop is a recursive function over the list it
  walks and each loop body a function of its own; all of them pass on the package, whose
  dictionaries they extend, and the store of boxes. The parameters
  \<open>agnostic_symbol_types\<close> and \<open>agnostic_positions_in_staff\<close> of \<open>read_file\<close> are the
  package's own dictionaries at its only call, so \<open>contains\<close> on the parameter and \<open>add\<close>
  on the attribute act on one dictionary. An exception leaves the changes made so far in
  place and drops the image under construction.
\<close>

text \<open>The messages of the three exceptions \<open>read_file\<close> raises; each carries the label.\<close>

definition region_type_not_found :: "string \<Rightarrow> string" where
  "region_type_not_found region_type_label =
     ''Region type \"'' @ region_type_label @
     ''\" not found in dictionary. A new entry will be created.''"

definition symbol_type_not_found :: "string \<Rightarrow> string" where
  "symbol_type_not_found muret_agnostic_symbol_type =
     ''Agnostic symbol type \"'' @ muret_agnostic_symbol_type @
     ''\" not found in dictionary. A new entry will be created.''"

definition position_not_found :: "string \<Rightarrow> string" where
  "position_not_found muret_position_in_staff =
     ''Position in staff \"'' @ muret_position_in_staff @
     ''\" not found in dictionary. A new entry will be created.''"

definition read_symbol ::
  "Package \<Rightarrow> heap \<Rightarrow> json \<Rightarrow> (error + AgnosticSymbol) \<times> Package \<times> heap" where
  "read_symbol self h symbol =
     (case json_in ''bounding_box'' symbol of Inl e \<Rightarrow> (Inl e, self, h) | Inr has_box \<Rightarrow>
      case (if has_box
            then (case json_getitem symbol (Some ''bounding_box'') of
                    Inl e \<Rightarrow> (Inl e, h)
                  | Inr bbox \<Rightarrow>
                      (case BoundingBox_from_MuRET h bbox of
                         (Inl e, h1) \<Rightarrow> (Inl e, h1)
                       | (Inr r, h1) \<Rightarrow> (Inr (Some r), h1)))
            else (Inr None, h)) of
        (Inl e, h1) \<Rightarrow> (Inl e, self, h1)
      | (Inr muret_symbol_bounding_box, h1) \<Rightarrow>
      case json_in ''approximate_x'' symbol of Inl e \<Rightarrow> (Inl e, self, h1) | Inr has_x \<Rightarrow>
      case (if has_x
            then (case json_getitem symbol None of Inl e \<Rightarrow> Inl e | Inr x \<Rightarrow> Inr (Some x))
            else Inr None) of
        Inl e \<Rightarrow> (Inl e, self, h1)
      | Inr muret_symbol_approximate_x \<Rightarrow>
      case json_getitem symbol (Some ''agnostic_symbol_type'') of
        Inl e \<Rightarrow> (Inl e, self, h1) | Inr type_value \<Rightarrow>
      case as_label type_value of
        Inl e \<Rightarrow> (Inl e, self, h1) | Inr muret_agnostic_symbol_type \<Rightarrow>
      if \<not> Dictionary_contains (agnostic_symbol_types self) muret_agnostic_symbol_type
      then (Inl (MuRETException (symbol_type_not_found muret_agnostic_symbol_type)),
            self\<lparr>agnostic_symbol_types :=
                   Dictionary_add (agnostic_symbol_types self) muret_agnostic_symbol_type\<rparr>,
            h1)
      else
      case json_getitem symbol (Some ''position_in_staff'') of
        Inl e \<Rightarrow> (Inl e, self, h1) | Inr position_value \<Rightarrow>
      case as_label position_value of
        Inl e \<Rightarrow> (Inl e, self, h1) | Inr muret_position_in_staff \<Rightarrow>
      if \<not> Dictionary_contains (agnostic_positions_in_staff self) muret_position_in_staff
      then (Inl (MuRETException (position_not_found muret_position_in_staff)),
            self\<lparr>agnostic_positions_in_staff :=
                   Dictionary_add (agnostic_positions_in_staff self) muret_position_in_staff\<rparr>,
            h1)
      else (Inr \<lparr>agnostic_symbol_type = muret_agnostic_symbol_type,
                 position_in_staff = muret_position_in_staff,
                 symbol_bounding_box = muret_symbol_bounding_box,
                 approximate_x = muret_symbol_approximate_x\<rparr>,
            self, h1))"

fun read_symbols ::
  "Package \<Rightarrow> heap \<Rightarrow> json list \<Rightarrow> (error + AgnosticSymbol list) \<times> Package \<times> heap" where
  "read_symbols self h [] = (Inr [], self, h)"
| "read_symbols self h (symbol # rest) =
     (case read_symbol self h symbol of
        (Inl e, self1, h1) \<Rightarrow> (Inl e, self1, h1)
      | (Inr muret_symbol, self1, h1) \<Rightarrow>
          (case read_symbols self1 h1 rest of
             (Inl e, self2, h2) \<Rightarrow> (Inl e, self2, h2)
           | (Inr others, self2, h2) \<Rightarrow> (Inr (muret_symbol # others), self2, h2)))"

definition read_region ::
  "Package \<Rightarrow> heap \<Rightarrow> json \<Rightarrow> (error + Region) \<times> Package \<times> heap" where
  "read_region self h region =
     (case json_getitem region (Some ''bounding_box'') of
        Inl e \<Rightarrow> (Inl e, self, h) | Inr bbox \<Rightarrow>
      case BoundingBox_from_MuRET h bbox of
        (Inl e, h1) \<Rightarrow> (Inl e, self, h1) | (Inr region_box, h1) \<Rightarrow>
      case json_getitem region (Some ''type'') of
        Inl e \<Rightarrow> (Inl e, self, h1) | Inr type_value \<Rightarrow>
      case as_label type_value of
        Inl e \<Rightarrow> (Inl e, self, h1) | Inr type_label \<Rightarrow>
      case json_in ''semantic_encoding'' region of
        Inl e \<Rightarrow> (Inl e, self, h1) | Inr has_encoding \<Rightarrow>
      case (if has_encoding
            then (case json_getitem region (Some ''semantic_encoding'') of
                    Inl e \<Rightarrow> Inl e | Inr enc \<Rightarrow> Inr (Some enc))
            else Inr None) of
        Inl e \<Rightarrow> (Inl e, self, h1) | Inr region_semantic_encoding \<Rightarrow>
      if \<not> Dictionary_contains (region_types self) type_label
      then (Inl (MuRETException (region_type_not_found type_label)),
            self\<lparr>region_types := Dictionary_add (region_types self) type_label\<rparr>, h1)
      else
      case json_in ''symbols'' region of
        Inl e \<Rightarrow> (Inl e, self, h1) | Inr has_symbols \<Rightarrow>
      if has_symbols
      then (case json_getitem region (Some ''symbols'') of
              Inl e \<Rightarrow> (Inl e, self, h1) | Inr symbol_regions \<Rightarrow>
            case json_iter symbol_regions of
              Inl e \<Rightarrow> (Inl e, self, h1) | Inr symbol_list \<Rightarrow>
            case read_symbols self h1 symbol_list of
              (Inl e, self2, h2) \<Rightarrow> (Inl e, self2, h2)
            | (Inr muret_symbols, self2, h2) \<Rightarrow>
                (Inr \<lparr>region_bounding_box = region_box,
                      semantic_encoding = region_semantic_encoding,
                      region_type = type_label, symbols = muret_symbols\<rparr>, self2, h2))
      else (Inr \<lparr>region_bounding_box = region_box,
                 semantic_encoding = region_semantic_encoding,
                 region_type = type_label, symbols = []\<rparr>, self, h1))"

fun read_regions ::
  "Package \<Rightarrow> heap \<Rightarrow> json list \<Rightarrow> (error + Region list) \<times> Package \<times> heap" where
  "read_regions self h [] = (Inr [], self, h)"
| "read_regions self h (region # rest) =
     (case read_region self h region of
        (Inl e, self1, h1) \<Rightarrow> (Inl e, self1, h1)
      | (Inr muret_region, self1, h1) \<Rightarrow>
          (case read_regions self1 h1 rest of
             (Inl e, self2, h2) \<Rightarrow> (Inl e, self2, h2)
           | (Inr others, self2, h2) \<Rightarrow> (Inr (muret_region # others), self2, h2)))"

definition read_page ::
  "Package \<Rightarrow> heap \<Rightarrow> json \<Rightarrow> (error + Page) \<times> Package \<times> heap" where
  "read_page self h page =
     (case json_getitem page (Some ''bounding_box'') of
        Inl e \<Rightarrow> (Inl e, self, h) | Inr bbox \<Rightarrow>
      case BoundingBox_from_MuRET h bbox of
        (Inl e, h1) \<Rightarrow> (Inl e, self, h1) | (Inr page_box, h1) \<Rightarrow>
      case json_in ''regions'' page of
        Inl e \<Rightarrow> (Inl e, self, h1) | Inr has_regions \<Rightarrow>
      if has_regions
      then (case json_getitem page (Some ''regions'') of
              Inl e \<Rightarrow> (Inl e, self, h1) | Inr regions_value \<Rightarrow>
            case json_iter regions_value of
              Inl e \<Rightarrow> (Inl e, self, h1) | Inr region_list \<Rightarrow>
            case read_regions self h1 region_list of
              (Inl e, self2, h2) \<Rightarrow> (Inl e, self2, h2)
            | (Inr muret_regions, self2, h2) \<Rightarrow>
                (Inr \<lparr>regions = muret_regions, page_bounding_box = page_box\<rparr>, self2, h2))
      else (Inr \<lparr>regions = [], page_bounding_box = page_box\<rparr>, self, h1))"

fun read_pages ::
  "Package \<Rightarrow> heap \<Rightarrow> json list \<Rightarrow> (error + Page list) \<times> Package \<times> heap" where
  "read_pages self h [] = (Inr [], self, h)"
| "read_pages self h (page # rest) =
     (case read_page self h page of
        (Inl e, self1, h1) \<Rightarrow> (Inl e, self1, h1)
      | (Inr muret_page, self1, h1) \<Rightarrow>
          (case read_pages self1 h1 rest of
             (Inl e, self2, h2) \<Rightarrow> (Inl e, self2, h2)
           | (Inr others, self2, h2) \<Rightarrow> (Inr (muret_page # others), self2, h2)))"

definition read_file ::
  "Package \<Rightarrow> heap \<Rightarrow> DatasetFile \<Rightarrow> (error + ImageMuRET) \<times> Package \<times> heap" where
  "read_file self h file =
     (case json_getitem (json_contents file) (Some ''id'') of
        Inl e \<Rightarrow> (Inl e, self, h) | Inr unique_id \<Rightarrow>
      case json_getitem (json_contents file) (Some ''url'') of
        Inl e \<Rightarrow> (Inl e, self, h) | Inr image_url \<Rightarrow>
      case json_getitem (json_contents file) (Some ''filename'') of
        Inl e \<Rightarrow> (Inl e, self, h) | Inr image_filename \<Rightarrow>
      case json_in ''pages'' (json_contents file) of
        Inl e \<Rightarrow> (Inl e, self, h) | Inr has_pages \<Rightarrow>
      if has_pages
      then (case json_getitem (json_contents file) (Some ''pages'') of
              Inl e \<Rightarrow> (Inl e, self, h) | Inr pages_value \<Rightarrow>
            case json_iter pages_value of
              Inl e \<Rightarrow> (Inl e, self, h) | Inr page_list \<Rightarrow>
            case read_pages self h page_list of
              (Inl e, self1, h1) \<Rightarrow> (Inl e, self1, h1)
            | (Inr muret_pages, self1, h1) \<Rightarrow>
                (Inr \<lparr>ID = unique_id, url = image_url, filename = image_filename,
                      pages = muret_pages\<rparr>, self1, h1))
      else (Inr \<lparr>ID = unique_id, url = image_url, filename = image_filename, pages = []\<rparr>,
            self, h))"


section \<open>The package folder\<close>

text \<open>
  The folder a package is loaded from is a tree. A file is what \<open>json.loads\<close> makes of its
  text, or nothing when the text is not JSON; the entries of a directory stand in the
  order in which the operating system lists them. Every \<open>open\<close> is logged with the path of
  the file below the package folder.
\<close>

datatype node = File "json option" | Dir "(string \<times> node) list"

fun child :: "node \<Rightarrow> string \<Rightarrow> node option" where
  "child (Dir entries) entry = map_of entries entry"
| "child (File content) entry = None"

definition endswith :: "string \<Rightarrow> string \<Rightarrow> bool" where
  "endswith s suffix = (length suffix \<le> length s \<and> drop (length s - length suffix) s = suffix)"

text \<open>
  \<open>Dictionary.from_json\<close>, given the node at the path of the dictionary file. Opening a
  directory raises an \<open>OSError\<close>, which is what \<open>IOError\<close> names.
\<close>

definition Dictionary_from_json :: "node \<Rightarrow> string \<Rightarrow> error + Dictionary" where
  "Dictionary_from_json dictionary_json_file root_element =
     (case dictionary_json_file of
        Dir entries \<Rightarrow> Inl IOError
      | File None \<Rightarrow> Inl JSONDecodeError
      | File (Some json_object) \<Rightarrow>
          (case json_in root_element json_object of
             Inl e \<Rightarrow> Inl e
           | Inr present \<Rightarrow>
               if \<not> present
               then Inl (MuRETException (''No root element named '' @ root_element @ [CHR 0x27]))
               else
                 (case json_getitem json_object (Some root_element) of
                    Inl e \<Rightarrow> Inl e
                  | Inr label_list_value \<Rightarrow>
                      (case json_iter label_list_value of
                         Inl e \<Rightarrow> Inl e
                       | Inr values \<Rightarrow>
                           (case as_labels values of
                              Inl e \<Rightarrow> Inl e
                            | Inr labels \<Rightarrow> Inr (Dictionary_init labels))))))"

text \<open>
  \<open>os.walk\<close> lists a directory before its subdirectories; the folder structure of a file
  is the path of its directory below the walked folder, empty for the folder itself.
\<close>

definition rel_join :: "string \<Rightarrow> string \<Rightarrow> string" where
  "rel_join folder entry = (if folder = [] then entry else folder @ ''/'' @ entry)"

fun is_file :: "node \<Rightarrow> bool" where
  "is_file (File content) = True"
| "is_file (Dir entries) = False"

fun walk :: "string \<Rightarrow> node \<Rightarrow> (string \<times> string \<times> node) list" where
  "walk folder (File content) = []"
| "walk folder (Dir entries) =
     map (\<lambda>entry. (folder, fst entry, snd entry))
       (filter (\<lambda>entry. is_file (snd entry) \<and> endswith (fst entry) ''.json'') entries)
     @ concat (map (\<lambda>entry. walk (rel_join folder (fst entry)) (snd entry)) entries)"

text \<open>
  \<open>os.path.splitext\<close> cuts the extension at the last dot, unless only dots stand before
  it.
\<close>

definition name_without_extension :: "string \<Rightarrow> string" where
  "name_without_extension file =
     (let stem = take (length file - 5) file
      in if endswith file ''.json'' \<and> \<not> set stem \<subseteq> {CHR ''.''} then stem else file)"

definition PackageFilesLoader_load_json ::
  "string option \<Rightarrow> string \<Rightarrow> node \<Rightarrow> error + DatasetFile" where
  "PackageFilesLoader_load_json folder json_file content =
     (case content of
        Dir entries \<Rightarrow> Inl IOError
      | File None \<Rightarrow> Inl JSONDecodeError
      | File (Some contents) \<Rightarrow>
          Inr \<lparr>folder_structure = folder, name = name_without_extension json_file,
               json_contents = contents\<rparr>)"

text \<open>
  A thread pool runs every task that was submitted, also after one of them has raised;
  the exception surfaces when the result of that task is taken. The model runs the tasks
  in the order of their submission and takes the results in that order, so the exception
  that surfaces is the one of the first failing task.
\<close>

fun collect :: "(error + 'a) list \<Rightarrow> error + 'a list" where
  "collect [] = Inr []"
| "collect (Inl e # rest) = Inl e"
| "collect (Inr x # rest) = (case collect rest of Inl e \<Rightarrow> Inl e | Inr xs \<Rightarrow> Inr (x # xs))"

definition PackageFilesLoader_load_folder ::
  "string \<Rightarrow> node \<Rightarrow> (error + DatasetFile list) \<times> string list" where
  "PackageFilesLoader_load_folder folderPath tree =
     (let found = walk [] tree
      in (collect (map (\<lambda>(folder, file, content).
                     PackageFilesLoader_load_json (Some folder) file content) found),
          map (\<lambda>(folder, file, content).
                 rel_join folderPath (rel_join folder file)) found))"

definition PackageFilesLoader_load ::
  "string \<Rightarrow> node option \<Rightarrow> (error + DatasetFile list) \<times> string list" where
  "PackageFilesLoader_load inputPath tree =
     (case tree of
        None \<Rightarrow> (Inl IOError, [])
      | Some (Dir entries) \<Rightarrow>
          (case PackageFilesLoader_load_folder inputPath (Dir entries) of
             (Inl e, opened) \<Rightarrow> (Inl e, opened)
           | (Inr files, opened) \<Rightarrow>
               (Inr (sort_key (\<lambda>f. (folder_structure f, name f)) files), opened))
      | Some (File content) \<Rightarrow>
          (case PackageFilesLoader_load_json None inputPath (File content) of
             Inl e \<Rightarrow> (Inl e, [inputPath])
           | Inr file \<Rightarrow> (Inr [file], [inputPath])))"

fun read_files ::
  "Package \<Rightarrow> heap \<Rightarrow> DatasetFile list \<Rightarrow> (error + ImageMuRET) list \<times> Package \<times> heap" where
  "read_files self h [] = ([], self, h)"
| "read_files self h (file # rest) =
     (case read_file self h file of
        (result, self1, h1) \<Rightarrow>
          (case read_files self1 h1 rest of
             (results, self2, h2) \<Rightarrow> (result # results, self2, h2)))"

text \<open>
  The second thread pool of \<open>Package.__init__\<close>: one \<open>read_file\<close> task for each file, then
  the results taken one by one.
\<close>

definition Package_read_all ::
  "Package \<Rightarrow> heap \<Rightarrow> DatasetFile list \<Rightarrow> error + Package \<times> heap" where
  "Package_read_all self h files =
     (case read_files self h files of
        (results, self1, h1) \<Rightarrow>
          (case collect results of
             Inl e \<Rightarrow> Inl e
           | Inr images \<Rightarrow> Inr (self1\<lparr>training_set_images := images\<rparr>, h1)))"

text \<open>
  \<open>Package.__init__\<close>. The folder is given as the tree found at its path, if any. The
  result is the package with the store of its boxes, or the exception, and the log of the
  files opened. A constructor that raises gives its caller no object.
\<close>

definition Package_init :: "node option \<Rightarrow> (error + Package \<times> heap) \<times> string list" where
  "Package_init folder =
     (case folder of
        None \<Rightarrow> (Inl IOError, [])
      | Some tree \<Rightarrow>
     (case child tree ''dictionary.json'' of
        None \<Rightarrow> (Inl IOError, [])
      | Some dictionary_file \<Rightarrow>
     (case Dictionary_from_json dictionary_file ''region_dictionary'' of
        Inl e \<Rightarrow> (Inl e, [''dictionary.json''])
      | Inr regions_dictionary \<Rightarrow>
     (case Dictionary_from_json dictionary_file ''agnostic_symbol_types'' of
        Inl e \<Rightarrow> (Inl e, [''dictionary.json'', ''dictionary.json''])
      | Inr symbols_dictionary \<Rightarrow>
     (case Dictionary_from_json dictionary_file ''agnostic_positions_in_staff'' of
        Inl e \<Rightarrow> (Inl e, [''dictionary.json'', ''dictionary.json'', ''dictionary.json''])
      | Inr positions_dictionary \<Rightarrow>
     (case PackageFilesLoader_load ''files'' (child tree ''files'') of
        (Inl e, opened) \<Rightarrow>
          (Inl e, [''dictionary.json'', ''dictionary.json'', ''dictionary.json''] @ opened)
      | (Inr muret_trainingset_package_files, opened) \<Rightarrow>
          (if length muret_trainingset_package_files = 0
           then Inl (MuRETException ''Empty MuRET training set package'')
           else Package_read_all
                  \<lparr>region_types = regions_dictionary,
                    agnostic_symbol_types = symbols_dictionary,
                    agnostic_positions_in_staff = positions_dictionary,
                    training_set_images = []\<rparr>
                  [] muret_trainingset_package_files,
           [''dictionary.json'', ''dictionary.json'', ''dictionary.json''] @ opened)))))))"

section \<open>Predicates on the outcome of reading a file\<close>

text \<open>
  What the three \<open>raise\<close> statements of \<open>read_file\<close> have in common: the label was absent
  from its dictionary, the message names it, and the package differs from the one before
  by that label, added to that dictionary.
\<close>

definition registered :: "Package \<Rightarrow> string \<Rightarrow> Package \<Rightarrow> bool" where
  "registered self message self1 \<longleftrightarrow>
     (\<exists>t. \<not> Dictionary_contains (region_types self) t
          \<and> message = region_type_not_found t
          \<and> self1 = self\<lparr>region_types := Dictionary_add (region_types self) t\<rparr>)
     \<or> (\<exists>t. \<not> Dictionary_contains (agnostic_symbol_types self) t
          \<and> message = symbol_type_not_found t
          \<and> self1 = self\<lparr>agnostic_symbol_types :=
                              Dictionary_add (agnostic_symbol_types self) t\<rparr>)
     \<or> (\<exists>t. \<not> Dictionary_contains (agnostic_positions_in_staff self) t
          \<and> message = position_not_found t
          \<and> self1 = self\<lparr>agnostic_positions_in_staff :=
                              Dictionary_add (agnostic_positions_in_staff self) t\<rparr>)"




text \<open>
  The outcome of a step of \<open>read_file\<close> started on package \<open>self\<close>: either the package is
  untouched, a returned value satisfies \<open>Q\<close> and a raised exception is none of the three
  above, or the step raised one of the three exceptions above.
\<close>

definition plain_error :: "error \<Rightarrow> bool" where
  "plain_error e \<longleftrightarrow> (\<forall>m. e \<noteq> MuRETException m)"

definition outcome ::
  "Package \<Rightarrow> ('a \<Rightarrow> bool) \<Rightarrow> (error + 'a) \<times> Package \<times> heap \<Rightarrow> bool" where
  "outcome self Q result \<longleftrightarrow>
     (fst (snd result) = self
      \<and> (case fst result of Inr x \<Rightarrow> Q x | Inl e \<Rightarrow> plain_error e))
     \<or> (\<exists>m. fst result = Inl (MuRETException m) \<and> registered self m (fst (snd result)))"

section \<open>An example package\<close>

text \<open>
  The inputs of the examples below: a \<open>dictionary.json\<close>, a bounding-box record, and three
  data files with one page and one region each. The first uses known labels only, the
  second has a region of a type the dictionary lacks, the third has a symbol with an
  \<open>approximate_x\<close>.
\<close>

definition example_dictionary :: json where
  "example_dictionary =
     JObj [(''region_dictionary'', JArr [JStr ''page'', JStr ''staff'']),
           (''agnostic_symbol_types'', JArr [JStr ''clef.G'']),
           (''agnostic_positions_in_staff'', JArr [JStr ''L2''])]"

definition example_box :: "rat \<Rightarrow> rat \<Rightarrow> rat \<Rightarrow> rat \<Rightarrow> json" where
  "example_box x1 y1 x2 y2 =
     JObj [(''fromX'', JNum x1), (''fromY'', JNum y1), (''toX'', JNum x2), (''toY'', JNum y2)]"

definition example_file :: "json \<Rightarrow> json" where
  "example_file region =
     JObj [(''id'', JNum 7), (''url'', JStr ''http://host/7.jpg''), (''filename'', JStr ''7.jpg''),
           (''pages'', JArr [JObj [(''bounding_box'', example_box 0 0 100 200),
                                   (''regions'', JArr [region])]])]"

definition example_region_known :: json where
  "example_region_known =
     JObj [(''type'', JStr ''staff''), (''bounding_box'', example_box 10 10 90 190),
           (''symbols'', JArr [JObj [(''agnostic_symbol_type'', JStr ''clef.G''),
                                     (''position_in_staff'', JStr ''L2'')]])]"

definition example_region_unknown :: json where
  "example_region_unknown =
     JObj [(''type'', JStr ''lyrics''), (''bounding_box'', example_box 10 10 90 190)]"

definition example_region_approximate_x :: json where
  "example_region_approximate_x =
     JObj [(''type'', JStr ''staff''), (''bounding_box'', example_box 10 10 90 190),
           (''symbols'', JArr [JObj [(''agnostic_symbol_type'', JStr ''clef.G''),
                                     (''position_in_staff'', JStr ''L2''),
                                     (''approximate_x'', JNum 15)]])]"

definition example_folder :: "json \<Rightarrow> node" where
  "example_folder data =
     Dir [(''dictionary.json'', File (Some example_dictionary)),
          (''files'', Dir [(''a.json'', File (Some data))])]"

definition example_package :: Package where
  "example_package =
     \<lparr>region_types = Dictionary_init [''page'', ''staff''],
       agnostic_symbol_types = Dictionary_init [''clef.G''],
       agnostic_positions_in_staff = Dictionary_init [''L2''],
       training_set_images = []\<rparr>"

section \<open>utils/image.py\<close>














section \<open>Properties of the bounding box\<close>


lemma round_half_even_nonneg: "0 \<le> x \<Longrightarrow> 0 \<le> round_half_even x"
  unfolding round_half_even_def Let_def by auto


lemma bit_length_bounds:
  "0 < i \<Longrightarrow> 1 \<le> bit_length i \<and> 2 ^ nat (bit_length i - 1) \<le> i \<and> i < 2 ^ nat (bit_length i)"
proof (induction i rule: bit_length.induct)
  case (1 i)
  show ?case
  proof (cases "i div 2 = 0")
    case True
    with 1(2) have "i = 1" by presburger
    then show ?thesis
      by (simp add: bit_length.simps)
  next
    case False
    with 1(2) have j: "0 < i div 2" by presburger
    define b where "b = bit_length (i div 2)"
    from 1(1) 1(2) j have ih: "1 \<le> b" "2 ^ nat (b - 1) \<le> i div 2" "i div 2 < 2 ^ nat b"
      unfolding b_def by auto
    have e: "bit_length i = 1 + b"
      using 1(2) by (subst bit_length.simps) (simp add: b_def)
    have n1: "nat (1 + b - 1) = Suc (nat (b - 1))"
      using ih(1) by simp
    have n2: "nat (1 + b) = Suc (nat b)"
      using ih(1) by simp
    have "2 * (i div 2) \<le> i" "i \<le> 2 * (i div 2) + 1"
      by presburger+
    with ih show ?thesis
      unfolding e n1 n2 by simp
  qed
qed

lemma pow2_pos: "0 < pow2 k"
  by (simp add: pow2_def)

lemma pow2_add: "pow2 (j + k) = pow2 j * pow2 k"
proof -
  have "pow2 k = 2 powi k" for k
    by (simp add: pow2_def power_int_def inverse_eq_divide power_one_over)
  then show ?thesis
    by (simp add: power_int_add)
qed

lemma ilog2_le:
  assumes "0 < y"
  shows "pow2 (ilog2 y) \<le> y"
proof (cases "1 \<le> y")
  case True
  then have p: "0 < \<lfloor>y\<rfloor>" by linarith
  from bit_length_bounds [OF p]
  have b: "1 \<le> bit_length \<lfloor>y\<rfloor>" "2 ^ nat (bit_length \<lfloor>y\<rfloor> - 1) \<le> \<lfloor>y\<rfloor>"
    by auto
  have "(2::rat) ^ nat (bit_length \<lfloor>y\<rfloor> - 1) = of_int (2 ^ nat (bit_length \<lfloor>y\<rfloor> - 1))"
    by simp
  also have "\<dots> \<le> of_int \<lfloor>y\<rfloor>"
    using b(2) by (simp only: of_int_le_iff)
  also have "\<dots> \<le> y"
    by simp
  finally show ?thesis
    using True b(1) by (simp add: ilog2_def pow2_def)
next
  case False
  define m where "m = \<lceil>1 / y\<rceil> - 1"
  have y1: "1 < 1 / y"
    using assms False by simp
  then have mp: "0 < m"
    unfolding m_def by linarith
  from bit_length_bounds [OF mp]
  have b: "1 \<le> bit_length m" "m < 2 ^ nat (bit_length m)"
    by auto
  have "\<lceil>1 / y\<rceil> \<le> 2 ^ nat (bit_length m)"
    using b(2) unfolding m_def by simp
  then have "1 / y \<le> of_int (2 ^ nat (bit_length m))"
    by (simp only: ceiling_le_iff)
  then have "1 / y \<le> 2 ^ nat (bit_length m)"
    by simp
  then have "1 / 2 ^ nat (bit_length m) \<le> y"
    using assms by (simp add: field_simps)
  then show ?thesis
    using False b(1) by (simp add: ilog2_def pow2_def m_def [symmetric])
qed



lemma fl_nonneg: "0 \<le> x \<Longrightarrow> 0 \<le> fl x"
  using pow2_pos round_half_even_nonneg [of "x / pow2 (max (ilog2 \<bar>x\<bar> - 52) (- 1074))"]
  by (simp add: fl_def Let_def less_imp_le)

lemma round_half_even_of_int: "round_half_even (of_int j) = j"
  by (simp add: round_half_even_def)


lemma pow2_mono: "a \<le> b \<Longrightarrow> pow2 a \<le> pow2 b"
proof -
  assume ab: "a \<le> b"
  have "pow2 b = pow2 a * pow2 (b - a)"
    using pow2_add [of a "b - a"] by simp
  moreover have "1 \<le> pow2 (b - a)"
    using ab by (simp add: pow2_def)
  then have "pow2 a * 1 \<le> pow2 a * pow2 (b - a)"
    using pow2_pos [of a] by (intro mult_left_mono) simp_all
  ultimately show ?thesis
    by simp
qed

lemma fl_exact:
  assumes m: "\<bar>m\<bar> < 2 ^ 53" and k: "- 1074 \<le> k"
  shows "fl (of_int m * pow2 k) = of_int m * pow2 k"
proof (cases "m = 0")
  case True
  then show ?thesis by (simp add: fl_def)
next
  case False
  define x where "x = of_int m * pow2 k"
  define e where "e = max (ilog2 \<bar>x\<bar> - 52) (- 1074)"
  have xn: "x \<noteq> 0"
    using False pow2_pos [of k] by (simp add: x_def)
  have lo: "pow2 (ilog2 \<bar>x\<bar>) \<le> \<bar>x\<bar>"
    using ilog2_le [of "\<bar>x\<bar>"] xn by simp
  have "(of_int \<bar>m\<bar> :: rat) < of_int (2 ^ 53)"
    using m by (simp only: of_int_less_iff)
  then have "of_int \<bar>m\<bar> * pow2 k < 2 ^ 53 * pow2 k"
    using pow2_pos [of k] by (intro mult_strict_right_mono) simp_all
  moreover have "\<bar>x\<bar> = of_int \<bar>m\<bar> * pow2 k"
    using pow2_pos [of k] by (simp add: x_def abs_mult)
  moreover have "(2::rat) ^ 53 * pow2 k = pow2 (53 + k)"
    unfolding pow2_add by (simp add: pow2_def)
  ultimately have hi: "\<bar>x\<bar> < pow2 (53 + k)"
    by simp
  have "ilog2 \<bar>x\<bar> < 53 + k"
  proof (rule ccontr)
    assume "\<not> ilog2 \<bar>x\<bar> < 53 + k"
    then have "pow2 (53 + k) \<le> pow2 (ilog2 \<bar>x\<bar>)"
      by (intro pow2_mono) simp
    with lo hi show False by linarith
  qed
  then have ek: "e \<le> k"
    using k by (simp add: e_def)
  have "pow2 k = pow2 e * pow2 (k - e)"
    using pow2_add [of e "k - e"] by simp
  moreover have "pow2 (k - e) = of_int (2 ^ nat (k - e))"
    using ek by (simp add: pow2_def)
  ultimately have xe: "x = of_int (m * 2 ^ nat (k - e)) * pow2 e"
    by (simp add: x_def)
  then have "x / pow2 e = of_int (m * 2 ^ nat (k - e))"
    using pow2_pos [of e] by simp
  then have "round_half_even (x / pow2 e) = m * 2 ^ nat (k - e)"
    by (simp only: round_half_even_of_int)
  then have "fl x = of_int (m * 2 ^ nat (k - e)) * pow2 e"
    using xn by (simp add: fl_def Let_def e_def)
  with xe have "fl x = x"
    by simp
  then show ?thesis
    unfolding x_def .
qed

lemma fl_of_int: "\<bar>m\<bar> < 2 ^ 53 \<Longrightarrow> fl (of_int m) = of_int m"
  using fl_exact [of m 0] by (simp add: pow2_def)

lemma fl_numeral: "(numeral n :: int) < 9007199254740992 \<Longrightarrow> fl (numeral n) = numeral n"
  using fl_of_int [of "numeral n"] by simp

lemma fl_zero_one: "fl 0 = 0" "fl 1 = 1"
  using fl_of_int [of 0] fl_of_int [of 1] by simp_all

lemma fl_half: "fl (1 / 2) = 1 / 2"
  using fl_exact [of 1 "- 1"] by (simp add: pow2_def)






lemma to_supported:
  "to box ''yolo'' dims = to_yolo box dims"
  "to box ''coco'' dims = to_coco box dims"
  "to box ''pascal'' dims = to_pascal box dims"
  by (simp_all add: to_def BoundingBox_to_attrs_def)

text \<open>
  C10. Only the constructor checks the format tag against the supported list and raises
  \<open>ValueError\<close>. \<open>to\<close> dispatches on the name \<open>to_<format>\<close>: for each of the three
  supported strings it runs the matching conversion, and for every other string the
  lookup fails with \<open>AttributeError\<close>, where the constructor would raise \<open>ValueError\<close>.
\<close>

theorem to_dispatch_by_name:
  "to box ''yolo'' dims = to_yolo box dims
   \<and> to box ''coco'' dims = to_coco box dims
   \<and> to box ''pascal'' dims = to_pascal box dims
   \<and> (fmt \<notin> {''yolo'', ''coco'', ''pascal''} \<longrightarrow>
        to box fmt dims = Inl AttributeError
        \<and> BoundingBox_init x1 y1 x2 y2 fmt = Inl ValueError)"
  by (simp add: to_def BoundingBox_to_attrs_def BoundingBox_init_def SUPPORTED_OD_FORMATS_def)

theorem to_dispatch_by_name_witness:
  "''voc'' \<notin> {''yolo'', ''coco'', ''pascal''}
   \<and> to \<lparr>box_a = 1, box_b = 2, box_c = 3, box_d = 4, current_format = ''pascal''\<rparr>
        ''voc'' None = Inl AttributeError
   \<and> BoundingBox_init 1 2 3 4 ''voc'' = Inl ValueError"
  using to_dispatch_by_name
    [of "\<lparr>box_a = 1, box_b = 2, box_c = 3, box_d = 4, current_format = ''pascal''\<rparr>"
        None "''voc''" 1 2 3 4]
  by simp



text \<open>
  The claim as first stated, for every pascal box, fails far outside the image: at
  horizontal coordinates near \<open>10 ^ 12\<close> the floats are \<open>2 ^ -13\<close> apart, and the first
  coordinate comes back \<open>2 ^ -12\<close> above the original for an image 21 wide, more than
  \<open>21 / 100000\<close>.
\<close>

theorem pascal_yolo_pascal_roundtrip_counterexample:
  "to \<lparr>box_a = 995581692392, box_b = 0, box_c = 995581693239, box_d = 1100,
        current_format = ''pascal''\<rparr> ''yolo'' (Some \<lparr>width = 21, height = 1100\<rparr>)
     = Inr \<lparr>box_a = 1553486710008491 / 32768, box_b = 1 / 2,
             box_c = 5676411561206601 / 140737488355328, box_d = 1,
             current_format = ''yolo''\<rparr>
   \<and> to \<lparr>box_a = 1553486710008491 / 32768, box_b = 1 / 2,
          box_c = 5676411561206601 / 140737488355328, box_d = 1,
          current_format = ''yolo''\<rparr> ''pascal'' (Some \<lparr>width = 21, height = 1100\<rparr>)
     = Inr \<lparr>box_a = 995581692392 + 1 / 4096, box_b = 0,
             box_c = 995581693239 + 1 / 8192, box_d = 1100,
             current_format = ''pascal''\<rparr>
   \<and> (21::rat) / 100000 < \<bar>995581692392 + 1 / 4096 - 995581692392\<bar>"
proof -
  have centre: "fl (1991163385631 / 2) = 1991163385631 / 2"
    "fl (284451912233 / 6) = 6213946840033963 / 131072"
    "py_round (6213946840033963 / 131072) 5 = 1553486710008491 / 32768"
    by code_simp+
  have extent: "fl (121 / 3) = 5676412030331563 / 140737488355328"
    "py_round (5676412030331563 / 140737488355328) 5 = 5676411561206601 / 140737488355328"
    by code_simp+
  have vertical: "py_round (1 / 2) 5 = 1 / 2" "py_round 1 5 = 1"
    by code_simp+
  have products: "fl (119204642785338621 / 140737488355328) = 465643135880229 / 549755813888"
    "fl (32623220910178311 / 32768) = 4077902613772289 / 4096"
    "fl (465643135880229 / 1099511627776) = 465643135880229 / 1099511627776"
    by code_simp+
  have corners: "fl (1094653647185913141998555 / 1099511627776) = 4077902612037633 / 4096"
    "fl (547326824058599687638053 / 549755813888) = 8155805231013889 / 8192"
    by code_simp+
  show ?thesis
    by (simp add: to_supported to_yolo_def to_pascal_def BoundingBox_init_def
        SUPPORTED_OD_FORMATS_def Let_def fl_numeral fl_zero_one fl_half
        centre extent vertical products corners)
qed

section \<open>Properties of the dictionary\<close>

lemma list_index_append_in: "x \<in> set xs \<Longrightarrow> list_index (xs @ ys) x = list_index xs x"
  by (induction xs) auto

lemma list_index_append_new: "x \<notin> set xs \<Longrightarrow> list_index (xs @ [x]) x = length xs"
  by (induction xs) auto

lemma list_index_less: "x \<in> set xs \<Longrightarrow> list_index xs x < length xs"
  by (induction xs) auto

lemma nth_list_index: "x \<in> set xs \<Longrightarrow> xs ! list_index xs x = x"
  by (induction xs) auto

lemma list_index_nth: "distinct xs \<Longrightarrow> i < length xs \<Longrightarrow> list_index xs (xs ! i) = i"
proof (induction xs arbitrary: i)
  case Nil
  then show ?case by simp
next
  case (Cons y ys)
  then show ?case by (cases i) auto
qed


lemma dict_inv_add: "dict_inv self \<Longrightarrow> dict_inv (Dictionary_add self lbl)"
  unfolding dict_inv_def Dictionary_add_def Let_def
  by (auto simp: list_index_append_in list_index_append_new)

lemma dict_inv_foldl: "dict_inv self \<Longrightarrow> dict_inv (foldl Dictionary_add self labels)"
  by (induction labels arbitrary: self) (auto simp: dict_inv_add)

lemma dict_inv_empty: "dict_inv \<lparr>label_list = [], inverted = Map.empty\<rparr>"
  by (simp add: dict_inv_def)

lemma label_list_add:
  "label_list (Dictionary_add self lbl) =
     (if lbl \<in> set (label_list self) then label_list self else label_list self @ [lbl])"
  by (simp add: Dictionary_add_def Let_def)

lemma label_list_foldl:
  "label_list (foldl Dictionary_add self labels) =
     label_list self @ filter (\<lambda>l. l \<notin> set (label_list self)) (first_seen labels)"
proof (induction labels arbitrary: self)
  case Nil
  then show ?case by simp
next
  case (Cons x xs)
  show ?case
  proof (cases "x \<in> set (label_list self)")
    case True
    then have "filter (\<lambda>l. l \<notin> set (label_list self)) (filter (\<lambda>y. y \<noteq> x) (first_seen xs))
               = filter (\<lambda>l. l \<notin> set (label_list self)) (first_seen xs)"
      by (auto intro: filter_cong)
    with True show ?thesis
      using Cons.IH [of "Dictionary_add self x"] by (simp add: label_list_add)
  next
    case False
    then have "filter (\<lambda>l. l \<notin> set (label_list self)) (filter (\<lambda>y. y \<noteq> x) (first_seen xs))
               = filter (\<lambda>l. l \<noteq> x \<and> l \<notin> set (label_list self)) (first_seen xs)"
      by (auto intro: filter_cong)
    with False show ?thesis
      using Cons.IH [of "Dictionary_add self x"] by (simp add: label_list_add)
  qed
qed

lemma set_first_seen: "set (first_seen xs) = set xs"
  by (induction xs) auto

lemma label_list_init: "label_list (Dictionary_init labels) = first_seen labels"
  by (simp add: Dictionary_init_def label_list_foldl)

lemma foldl_init: "foldl Dictionary_add (Dictionary_init xs) ys = Dictionary_init (xs @ ys)"
  by (simp add: Dictionary_init_def)

lemma dict_inv_init: "dict_inv (Dictionary_init labels)"
  unfolding Dictionary_init_def by (rule dict_inv_foldl [OF dict_inv_empty])

text \<open>
  C3. For a dictionary built from a label list and any further sequence of \<open>add\<close> calls:
  every added label \<open>L\<close> has an index, \<open>label(index_of(L)) = L\<close>, and adding it again
  changes nothing; \<open>index_of(label(i)) = i\<close> for every \<open>0 \<le> i < size()\<close>; the labels are
  distinct and stand in first-seen order; the dictionary contains exactly the added labels;
  and the label at position \<open>n\<close> has index \<open>n\<close>, so the indices are \<open>0 .. size() - 1\<close>
  without gaps.
\<close>

theorem dictionary_label_index_bijection:
  fixes initial added :: "string list"
  defines "dict \<equiv> foldl Dictionary_add (Dictionary_init initial) added"
  shows "(\<forall>L \<in> set initial \<union> set added.
            \<exists>i. Dictionary_index_of dict L = Inr i \<and> Dictionary_label dict i = Inr L
                 \<and> Dictionary_add dict L = dict)
         \<and> (\<forall>i. 0 \<le> i \<and> i < Dictionary_size dict \<longrightarrow>
               (\<exists>L. Dictionary_label dict i = Inr L \<and> Dictionary_index_of dict L = Inr i))
         \<and> distinct (label_list dict)
         \<and> label_list dict = first_seen (initial @ added)
         \<and> (\<forall>L. Dictionary_contains dict L \<longleftrightarrow> L \<in> set initial \<union> set added)
         \<and> (\<forall>n < length (label_list dict). inverted dict (label_list dict ! n) = Some n)"
proof -
  have d: "dict = Dictionary_init (initial @ added)"
    by (simp add: dict_def foldl_init)
  have inv: "dict_inv dict"
    unfolding d by (rule dict_inv_init)
  have ll: "label_list dict = first_seen (initial @ added)"
    unfolding d by (rule label_list_init)
  have s: "set (label_list dict) = set initial \<union> set added"
    by (simp add: ll set_first_seen)
  have dist: "distinct (label_list dict)"
    using inv by (simp add: dict_inv_def)
  have look: "inverted dict L =
      (if L \<in> set (label_list dict) then Some (list_index (label_list dict) L) else None)" for L
    using inv by (simp add: dict_inv_def)
  have a: "\<exists>i. Dictionary_index_of dict L = Inr i \<and> Dictionary_label dict i = Inr L
              \<and> Dictionary_add dict L = dict"
    if "L \<in> set initial \<union> set added" for L
  proof -
    from that have m: "L \<in> set (label_list dict)" using s by simp
    then have "list_index (label_list dict) L < length (label_list dict)"
      by (rule list_index_less)
    with m show ?thesis
      by (simp add: Dictionary_index_of_def Dictionary_label_def Dictionary_add_def look
          nth_list_index)
  qed
  have b: "\<exists>L. Dictionary_label dict i = Inr L \<and> Dictionary_index_of dict L = Inr i"
    if "0 \<le> i \<and> i < Dictionary_size dict" for i
  proof -
    from that have n: "nat i < length (label_list dict)"
      unfolding Dictionary_size_def by linarith
    then have "list_index (label_list dict) (label_list dict ! nat i) = nat i"
      using dist by (simp add: list_index_nth)
    with that n show ?thesis
      by (simp add: Dictionary_index_of_def Dictionary_label_def Dictionary_size_def look)
  qed
  have c: "Dictionary_contains dict L \<longleftrightarrow> L \<in> set initial \<union> set added" for L
    using s by (simp add: Dictionary_contains_def look)
  have e: "inverted dict (label_list dict ! n) = Some n" if "n < length (label_list dict)" for n
    using that dist by (simp add: look list_index_nth)
  from a b c e dist ll show ?thesis by blast
qed


theorem dictionary_label_index_bijection_witness:
  "Dictionary_index_of
     (foldl Dictionary_add (Dictionary_init [''staff'', ''lyrics'', ''staff'']) [''page'', ''lyrics''])
     ''page'' = Inr 2
   \<and> Dictionary_label
     (foldl Dictionary_add (Dictionary_init [''staff'', ''lyrics'', ''staff'']) [''page'', ''lyrics''])
     2 = Inr ''page''
   \<and> label_list
     (foldl Dictionary_add (Dictionary_init [''staff'', ''lyrics'', ''staff'']) [''page'', ''lyrics''])
     = [''staff'', ''lyrics'', ''page'']
   \<and> Dictionary_size
     (foldl Dictionary_add (Dictionary_init [''staff'', ''lyrics'', ''staff'']) [''page'', ''lyrics''])
     = 3
   \<and> Dictionary_contains
     (foldl Dictionary_add (Dictionary_init [''staff'', ''lyrics'', ''staff'']) [''page'', ''lyrics''])
     ''lyrics''"
  using dictionary_label_index_bijection [of "[''staff'', ''lyrics'', ''staff'']" "[''page'', ''lyrics'']"]
  by (simp add: Dictionary_init_def Dictionary_add_def Dictionary_index_of_def
      Dictionary_label_def Dictionary_size_def Dictionary_contains_def)

section \<open>Properties of the partition\<close>

lemma py_slice_prefix: "0 \<le> i \<Longrightarrow> py_slice xs None (Some i) = take (nat i) xs"
  by (simp add: py_slice_def slice_bound_def Let_def min_def)

lemma py_slice_suffix: "0 \<le> i \<Longrightarrow> py_slice xs (Some i) None = drop (nat i) xs"
  by (simp add: py_slice_def slice_bound_def Let_def min_def)

lemma py_slice_middle:
  "0 \<le> i \<Longrightarrow> i \<le> j \<Longrightarrow> py_slice xs (Some i) (Some j) = take (nat j - nat i) (drop (nat i) xs)"
  by (simp add: py_slice_def slice_bound_def Let_def min_def)

lemma take_middle_drop: "i \<le> j \<Longrightarrow> take i xs @ take (j - i) (drop i xs) @ drop j xs = xs"
  by (metis append_take_drop_id drop_drop le_add_diff_inverse2)

lemma floor_nonneg_scaled: "0 \<le> (f::rat) \<Longrightarrow> 0 \<le> \<lfloor>fl (fl (of_nat n) * f)\<rfloor>"
  by (simp add: fl_nonneg)

lemma literal_fractions:
  "py_round (fl (fl (fl (7 / 10) + fl (1 / 5)) + fl (1 / 10))) 2 = 1"
  "py_round (fl (fl (fl (7 / 10) + fl (1 / 5)) + fl (9 / 100))) 2 \<noteq> 1"
  "\<lfloor>fl (fl 100 * fl (7 / 10))\<rfloor> = 70"
  "\<lfloor>fl (fl 100 * fl (1 / 5))\<rfloor> = 20"
  "\<lfloor>fl (fl 90 * fl (7 / 10))\<rfloor> = 62"
  "\<lfloor>fl (fl 90 * fl (1 / 5))\<rfloor> = 18"
  "\<lfloor>(90::rat) * (7 / 10)\<rfloor> = 63"
  by code_simp+

text \<open>
  C2 (as amended). When the float sum of the three fractions, rounded to 2 decimal places,
  is not 1, \<open>partition\<close> raises \<open>MuRETException\<close> and returns no split. When it is 1 and the
  train and validation fractions are not negative, the result is the three contiguous
  slices \<open>[0, i1)\<close>, \<open>[i1, i2)\<close> and \<open>[i2, N)\<close> of the input with \<open>i1 = floor(N * train)\<close> and
  \<open>i2 = i1 + floor(N * validation)\<close>, the products being float products; their
  concatenation is the input, so they keep its order, do not overlap and cover it once.
  Fractions (0.7, 0.2, 0.1) over 100 items give 70, 20 and 10 items; over 90 items they
  give 62, 18 and 10 items, since the float product \<open>90 * 0.7\<close> is below 63.
\<close>

theorem partition_slices:
  fixes dataset :: "'a list"
  shows
  "(py_round (fl (fl (train splits + validation splits) + test splits)) 2 \<noteq> 1 \<longrightarrow>
       (\<exists>msg. PartitionManager_partition dataset splits = Inl (MuRETException msg)))
   \<and> (py_round (fl (fl (train splits + validation splits) + test splits)) 2 = 1
        \<and> 0 \<le> train splits \<and> 0 \<le> validation splits \<longrightarrow>
       (\<exists>i1 i2 res.
          i1 = nat \<lfloor>fl (fl (of_nat (length dataset)) * train splits)\<rfloor>
          \<and> i2 = i1 + nat \<lfloor>fl (fl (of_nat (length dataset)) * validation splits)\<rfloor>
          \<and> PartitionManager_partition dataset splits = Inr res
          \<and> train_list res = take i1 dataset
          \<and> validation_list res = take (i2 - i1) (drop i1 dataset)
          \<and> test_list res = drop i2 dataset
          \<and> train_list res @ validation_list res @ test_list res = dataset))
   \<and> (length dataset = 100 \<longrightarrow>
       (\<exists>res. PartitionManager_partition dataset
                 \<lparr>train = fl (7 / 10), validation = fl (1 / 5), test = fl (1 / 10)\<rparr> = Inr res
          \<and> length (train_list res) = 70
          \<and> length (validation_list res) = 20
          \<and> length (test_list res) = 10))
   \<and> (length dataset = 90 \<longrightarrow>
       (\<exists>res. PartitionManager_partition dataset
                 \<lparr>train = fl (7 / 10), validation = fl (1 / 5), test = fl (1 / 10)\<rparr> = Inr res
          \<and> length (train_list res) = 62
          \<and> length (validation_list res) = 18
          \<and> length (test_list res) = 10))"
proof (intro conjI impI)
  assume "py_round (fl (fl (train splits + validation splits) + test splits)) 2 \<noteq> 1"
  then show "\<exists>msg. PartitionManager_partition dataset splits = Inl (MuRETException msg)"
    by (simp add: PartitionManager_partition_def Let_def)
next
  assume h: "py_round (fl (fl (train splits + validation splits) + test splits)) 2 = 1
        \<and> 0 \<le> train splits \<and> 0 \<le> validation splits"
  define a where "a = \<lfloor>fl (fl (of_nat (length dataset)) * train splits)\<rfloor>"
  define b where "b = \<lfloor>fl (fl (of_nat (length dataset)) * validation splits)\<rfloor>"
  have a0: "0 \<le> a" and b0: "0 \<le> b"
    using h floor_nonneg_scaled unfolding a_def b_def by blast+
  define res where "res = \<lparr>train_list = take (nat a) dataset,
      validation_list = take (nat a + nat b - nat a) (drop (nat a) dataset),
      test_list = drop (nat a + nat b) dataset\<rparr>"
  have ab: "nat (a + b) = nat a + nat b"
    using a0 b0 by (simp add: nat_add_distrib)
  have p: "PartitionManager_partition dataset splits = Inr res"
    using h a0 b0
    by (simp add: PartitionManager_partition_def Let_def a_def [symmetric] b_def [symmetric] res_def
        py_slice_prefix py_slice_suffix py_slice_middle ab)
  have cat: "train_list res @ validation_list res @ test_list res = dataset"
    unfolding res_def using take_middle_drop [of "nat a" "nat a + nat b" dataset] by simp
  show "\<exists>i1 i2 res.
          i1 = nat \<lfloor>fl (fl (of_nat (length dataset)) * train splits)\<rfloor>
          \<and> i2 = i1 + nat \<lfloor>fl (fl (of_nat (length dataset)) * validation splits)\<rfloor>
          \<and> PartitionManager_partition dataset splits = Inr res
          \<and> train_list res = take i1 dataset
          \<and> validation_list res = take (i2 - i1) (drop i1 dataset)
          \<and> test_list res = drop i2 dataset
          \<and> train_list res @ validation_list res @ test_list res = dataset"
    using p cat unfolding a_def [symmetric] b_def [symmetric]
    by (intro exI [of _ "nat a"] exI [of _ "nat a + nat b"] exI [of _ res]) (simp add: res_def)
next
  assume n: "length dataset = 100"
  show "\<exists>res. PartitionManager_partition dataset
                 \<lparr>train = fl (7 / 10), validation = fl (1 / 5), test = fl (1 / 10)\<rparr> = Inr res
          \<and> length (train_list res) = 70
          \<and> length (validation_list res) = 20
          \<and> length (test_list res) = 10"
    using n
    by (simp add: PartitionManager_partition_def Let_def py_slice_def slice_bound_def
        literal_fractions)
next
  assume n: "length dataset = 90"
  show "\<exists>res. PartitionManager_partition dataset
                 \<lparr>train = fl (7 / 10), validation = fl (1 / 5), test = fl (1 / 10)\<rparr> = Inr res
          \<and> length (train_list res) = 62
          \<and> length (validation_list res) = 18
          \<and> length (test_list res) = 10"
    using n
    by (simp add: PartitionManager_partition_def Let_def py_slice_def slice_bound_def
        literal_fractions)
qed

theorem partition_slices_witness:
  "py_round (fl (fl (fl (7 / 10) + fl (1 / 5)) + fl (9 / 100))) 2 \<noteq> 1
   \<and> (\<exists>msg. PartitionManager_partition [1::nat, 2, 3]
                 \<lparr>train = fl (7 / 10), validation = fl (1 / 5), test = fl (9 / 100)\<rparr>
          = Inl (MuRETException msg))
   \<and> py_round (fl (fl (fl (7 / 10) + fl (1 / 5)) + fl (1 / 10))) 2 = 1
   \<and> 0 \<le> fl (7 / 10) \<and> 0 \<le> fl (1 / 5)
   \<and> (\<exists>res. PartitionManager_partition [0::nat, 1, 2, 3, 4, 5, 6, 7, 8, 9]
                 \<lparr>train = fl (7 / 10), validation = fl (1 / 5), test = fl (1 / 10)\<rparr> = Inr res
        \<and> train_list res @ validation_list res @ test_list res
            = [0, 1, 2, 3, 4, 5, 6, 7, 8, 9])
   \<and> length (replicate 100 (0::nat)) = 100
   \<and> (\<exists>res. PartitionManager_partition (replicate 100 (0::nat))
                 \<lparr>train = fl (7 / 10), validation = fl (1 / 5), test = fl (1 / 10)\<rparr>
          = Inr res
        \<and> length (train_list res) = 70 \<and> length (validation_list res) = 20
        \<and> length (test_list res) = 10)
   \<and> length (replicate 90 (0::nat)) = 90
   \<and> (\<exists>res. PartitionManager_partition (replicate 90 (0::nat))
                 \<lparr>train = fl (7 / 10), validation = fl (1 / 5), test = fl (1 / 10)\<rparr>
          = Inr res
        \<and> length (train_list res) = 62 \<and> length (validation_list res) = 18
        \<and> length (test_list res) = 10)"
proof -
  have r1: "py_round (fl (fl (fl (7 / 10) + fl (1 / 5)) + fl (9 / 100))) 2 \<noteq> 1"
    by (rule literal_fractions)
  have e1: "\<exists>msg. PartitionManager_partition [1::nat, 2, 3]
                 \<lparr>train = fl (7 / 10), validation = fl (1 / 5), test = fl (9 / 100)\<rparr>
          = Inl (MuRETException msg)"
    using r1
      partition_slices [of "\<lparr>train = fl (7 / 10), validation = fl (1 / 5), test = fl (9 / 100)\<rparr>"
                           "[1::nat, 2, 3]"]
    by simp
  have r2: "py_round (fl (fl (fl (7 / 10) + fl (1 / 5)) + fl (1 / 10))) 2 = 1"
    by (rule literal_fractions)
  have nn: "0 \<le> fl (7 / 10)" "0 \<le> fl (1 / 5)"
    by (simp_all add: fl_nonneg)
  have e2: "\<exists>res. PartitionManager_partition [0::nat, 1, 2, 3, 4, 5, 6, 7, 8, 9]
                 \<lparr>train = fl (7 / 10), validation = fl (1 / 5), test = fl (1 / 10)\<rparr> = Inr res
        \<and> train_list res @ validation_list res @ test_list res
            = [0, 1, 2, 3, 4, 5, 6, 7, 8, 9]"
    using r2 nn
      partition_slices [of "\<lparr>train = fl (7 / 10), validation = fl (1 / 5), test = fl (1 / 10)\<rparr>"
                           "[0::nat, 1, 2, 3, 4, 5, 6, 7, 8, 9]"]
    by auto
  have l: "length (replicate 100 (0::nat)) = 100"
    by simp
  have e3: "\<exists>res. PartitionManager_partition (replicate 100 (0::nat))
                 \<lparr>train = fl (7 / 10), validation = fl (1 / 5), test = fl (1 / 10)\<rparr> = Inr res
        \<and> length (train_list res) = 70 \<and> length (validation_list res) = 20
        \<and> length (test_list res) = 10"
    using l
      partition_slices [of "\<lparr>train = fl (7 / 10), validation = fl (1 / 5), test = fl (1 / 10)\<rparr>"
                           "replicate 100 (0::nat)"]
    by blast
  have l2: "length (replicate 90 (0::nat)) = 90"
    by simp
  have e4: "\<exists>res. PartitionManager_partition (replicate 90 (0::nat))
                 \<lparr>train = fl (7 / 10), validation = fl (1 / 5), test = fl (1 / 10)\<rparr> = Inr res
        \<and> length (train_list res) = 62 \<and> length (validation_list res) = 18
        \<and> length (test_list res) = 10"
    using l2
      partition_slices [of "\<lparr>train = fl (7 / 10), validation = fl (1 / 5), test = fl (1 / 10)\<rparr>"
                           "replicate 90 (0::nat)"]
    by blast
  from r1 e1 r2 nn e2 l e3 l2 e4 show ?thesis
    by simp
qed

text \<open>
  The claim as first stated, for every triple of fractions, fails at a negative validation
  fraction: the sum is 1, and the test slice starts at index 0 and repeats the train items.
\<close>

theorem partition_slices_counterexample:
  "PartitionManager_partition [0::nat, 1, 2, 3, 4, 5, 6, 7, 8, 9] \<lparr>train = 1 / 2, validation = - 1 / 2, test = 1\<rparr>
     = Inr \<lparr>train_list = [0, 1, 2, 3, 4], validation_list = [],
            test_list = [0, 1, 2, 3, 4, 5, 6, 7, 8, 9]\<rparr>
   \<and> [0::nat, 1, 2, 3, 4] @ [] @ [0, 1, 2, 3, 4, 5, 6, 7, 8, 9] \<noteq> [0, 1, 2, 3, 4, 5, 6, 7, 8, 9]"
  by code_simp

section \<open>Properties of detection objects and label files\<close>





lemma str_nat_nonempty: "str_nat n \<noteq> []"
  by (subst str_nat.simps) simp




lemma frac_digits_nonempty: "frac_digits n \<noteq> []"
  by (simp add: frac_digits_def Let_def)


lemma str_float_nonempty: "str_float x \<noteq> []"
  by (simp add: str_float_def Let_def str_nat_nonempty)




























section \<open>Properties of the package loader\<close>











lemma outcome_Inr [simp]: "outcome self Q (Inr x, self, h) \<longleftrightarrow> Q x"
  by (auto simp: outcome_def)

lemma outcome_region [simp]:
  "\<not> Dictionary_contains (region_types self) t \<Longrightarrow>
   outcome self Q (Inl (MuRETException (region_type_not_found t)),
                   self\<lparr>region_types := Dictionary_add (region_types self) t\<rparr>, h)"
  unfolding outcome_def registered_def by (intro disjI2 exI [of _ "region_type_not_found t"]) auto

lemma outcome_symbol [simp]:
  "\<not> Dictionary_contains (agnostic_symbol_types self) t \<Longrightarrow>
   outcome self Q (Inl (MuRETException (symbol_type_not_found t)),
                   self\<lparr>agnostic_symbol_types := Dictionary_add (agnostic_symbol_types self) t\<rparr>, h)"
  unfolding outcome_def registered_def by (intro disjI2 exI [of _ "symbol_type_not_found t"]) auto

lemma outcome_position [simp]:
  "\<not> Dictionary_contains (agnostic_positions_in_staff self) t \<Longrightarrow>
   outcome self Q (Inl (MuRETException (position_not_found t)),
                   self\<lparr>agnostic_positions_in_staff :=
                           Dictionary_add (agnostic_positions_in_staff self) t\<rparr>, h)"
  unfolding outcome_def registered_def by (intro disjI2 exI [of _ "position_not_found t"]) auto


















section \<open>The loader on the example package\<close>

lemmas example_defs = example_dictionary_def example_box_def example_file_def
  example_region_known_def example_region_unknown_def example_region_approximate_x_def
  example_folder_def example_package_def

lemmas loader_defs = Package_init_def Package_read_all_def PackageFilesLoader_load_def
  PackageFilesLoader_load_folder_def PackageFilesLoader_load_json_def Dictionary_from_json_def
  read_file_def read_page_def read_region_def read_symbol_def BoundingBox_from_MuRET_def
  BoundingBox_init_def SUPPORTED_OD_FORMATS_def Dictionary_init_def Dictionary_add_def
  Dictionary_contains_def name_without_extension_def endswith_def rel_join_def Let_def

lemma example_known_loads:
  "fst (Package_init (Some (example_folder (example_file example_region_known)))) =
     Inr (example_package\<lparr>training_set_images :=
            [\<lparr>ID = JNum 7, url = JStr ''http://host/7.jpg'', filename = JStr ''7.jpg'',
              pages = [\<lparr>regions =
                         [\<lparr>region_bounding_box = 1, semantic_encoding = None,
                           region_type = ''staff'',
                           symbols = [\<lparr>agnostic_symbol_type = ''clef.G'',
                                       position_in_staff = ''L2'',
                                       symbol_bounding_box = None,
                                       approximate_x = None\<rparr>]\<rparr>],
                       page_bounding_box = 0\<rparr>]\<rparr>]\<rparr>,
          [\<lparr>box_a = 0, box_b = 0, box_c = 100, box_d = 200, current_format = ''pascal''\<rparr>,
           \<lparr>box_a = 10, box_b = 10, box_c = 90, box_d = 190, current_format = ''pascal''\<rparr>])"
  by (simp add: example_defs loader_defs)



text \<open>
  C9. The claim does not hold of the code: \<open>read_file\<close> reads the value with
  \<open>symbol[muret_symbol_approximate_x]\<close>, where the variable is still \<open>None\<close>, instead of
  \<open>symbol['approximate_x']\<close>. A decoded JSON object has no key \<open>None\<close>, so a data file
  with a symbol that has an \<open>approximate_x\<close> raises \<open>KeyError\<close> and the package does not
  load, although every label of the file is in its dictionary.
\<close>

theorem approximate_x_key_error:
  "Package_init (Some (example_folder (example_file example_region_approximate_x))) =
     (Inl KeyError,
      [''dictionary.json'', ''dictionary.json'', ''dictionary.json'', ''files/a.json''])"
  by (simp add: example_defs loader_defs)

lemma as_labels_strings: "as_labels (map JStr labels) = Inr labels"
  by (induction labels) auto

lemma map_of_Some_key: "map_of members k = Some v \<Longrightarrow> k \<in> set (map fst members)"
  by (metis image_set map_of_eq_None_iff option.distinct(1))

lemma Dictionary_from_json_missing:
  "k \<notin> set (map fst members) \<Longrightarrow>
   Dictionary_from_json (File (Some (JObj members))) k =
     Inl (MuRETException (''No root element named '' @ k @ [CHR 0x27]))"
  by (simp add: Dictionary_from_json_def)

lemma Dictionary_from_json_present:
  "map_of members k = Some (JArr (map JStr labels)) \<Longrightarrow>
   Dictionary_from_json (File (Some (JObj members))) k = Inr (Dictionary_init labels)"
  using map_of_Some_key [of members k]
  by (simp add: Dictionary_from_json_def as_labels_strings)

lemma Package_init_missing_root:
  assumes d: "child tree ''dictionary.json'' = Some (File (Some (JObj members)))"
    and ok: "\<forall>k \<in> {''region_dictionary'', ''agnostic_symbol_types'',
                    ''agnostic_positions_in_staff''}.
               k \<notin> set (map fst members)
               \<or> (\<exists>labels. map_of members k = Some (JArr (map JStr labels)))"
    and missing: "\<exists>k \<in> {''region_dictionary'', ''agnostic_symbol_types'',
                          ''agnostic_positions_in_staff''}. k \<notin> set (map fst members)"
  shows "\<exists>k opened. k \<in> {''region_dictionary'', ''agnostic_symbol_types'',
                           ''agnostic_positions_in_staff''}
           \<and> k \<notin> set (map fst members)
           \<and> Package_init (Some tree) =
               (Inl (MuRETException (''No root element named '' @ k @ [CHR 0x27])), opened)
           \<and> set opened \<subseteq> {''dictionary.json''}"
proof (cases "''region_dictionary'' \<in> set (map fst members)")
  case False
  then have "Package_init (Some tree) =
      (Inl (MuRETException (''No root element named '' @ ''region_dictionary'' @ [CHR 0x27])),
       [''dictionary.json''])"
    using d by (simp add: Package_init_def Dictionary_from_json_missing del: append.simps)
  with False show ?thesis
    by (intro exI [of _ "''region_dictionary''"] exI [of _ "[''dictionary.json'']"]) simp
next
  case r: True
  with ok obtain rs where rs: "map_of members ''region_dictionary'' = Some (JArr (map JStr rs))"
    by auto
  show ?thesis
  proof (cases "''agnostic_symbol_types'' \<in> set (map fst members)")
    case False
    then have "Package_init (Some tree) =
        (Inl (MuRETException (''No root element named '' @ ''agnostic_symbol_types'' @ [CHR 0x27])),
         [''dictionary.json'', ''dictionary.json''])"
      using d Dictionary_from_json_present [OF rs]
      by (simp add: Package_init_def Dictionary_from_json_missing del: append.simps)
    with False show ?thesis
      by (intro exI [of _ "''agnostic_symbol_types''"]
          exI [of _ "[''dictionary.json'', ''dictionary.json'']"]) simp
  next
    case s: True
    with ok obtain ss
      where ss: "map_of members ''agnostic_symbol_types'' = Some (JArr (map JStr ss))"
      by auto
    from missing r s have p: "''agnostic_positions_in_staff'' \<notin> set (map fst members)"
      by auto
    then have "Package_init (Some tree) =
        (Inl (MuRETException
               (''No root element named '' @ ''agnostic_positions_in_staff'' @ [CHR 0x27])),
         [''dictionary.json'', ''dictionary.json'', ''dictionary.json''])"
      using d Dictionary_from_json_present [OF rs] Dictionary_from_json_present [OF ss]
      by (simp add: Package_init_def Dictionary_from_json_missing del: append.simps)
    with p show ?thesis
      by (intro exI [of _ "''agnostic_positions_in_staff''"]
          exI [of _ "[''dictionary.json'', ''dictionary.json'', ''dictionary.json'']"]) simp
  qed
qed

lemma Package_init_empty:
  assumes "child tree ''dictionary.json'' = Some (File (Some (JObj members)))"
    and "map_of members ''region_dictionary'' = Some (JArr (map JStr rs))"
    and "map_of members ''agnostic_symbol_types'' = Some (JArr (map JStr ss))"
    and "map_of members ''agnostic_positions_in_staff'' = Some (JArr (map JStr ps))"
    and "child tree ''files'' = Some (Dir entries)"
    and "walk [] (Dir entries) = []"
  shows "Package_init (Some tree) =
           (Inl (MuRETException ''Empty MuRET training set package''),
            [''dictionary.json'', ''dictionary.json'', ''dictionary.json''])"
proof -
  have "PackageFilesLoader_load ''files'' (Some (Dir entries)) = (Inr [], [])"
    using assms(6)
    by (simp add: PackageFilesLoader_load_def PackageFilesLoader_load_folder_def Let_def
        del: walk.simps)
  then show ?thesis
    using assms(1,5) Dictionary_from_json_present [OF assms(2)]
      Dictionary_from_json_present [OF assms(3)] Dictionary_from_json_present [OF assms(4)]
    by (simp add: Package_init_def)
qed

text \<open>
  C6. Constructing a package raises \<open>IOError\<close> when the folder or its \<open>dictionary.json\<close>
  is missing. When \<open>dictionary.json\<close> is a JSON object that lacks one of the three root
  keys (the keys it has holding arrays of label strings), the constructor raises the
  \<open>MuRETException\<close> of the first missing key, and the only file opened before is
  \<open>dictionary.json\<close>: nothing under \<open>files/\<close> has been read. When the three dictionaries
  load and the folder \<open>files\<close> holds no JSON file, the constructor raises the
  \<open>MuRETException\<close> of an empty package.
\<close>

theorem package_construction_failures:
  "Package_init None = (Inl IOError, [])
   \<and> (child tree ''dictionary.json'' = None \<longrightarrow> Package_init (Some tree) = (Inl IOError, []))
   \<and> (child tree ''dictionary.json'' = Some (File (Some (JObj members)))
      \<and> (\<forall>k \<in> {''region_dictionary'', ''agnostic_symbol_types'',
                  ''agnostic_positions_in_staff''}.
             k \<notin> set (map fst members)
             \<or> (\<exists>labels. map_of members k = Some (JArr (map JStr labels))))
      \<and> (\<exists>k \<in> {''region_dictionary'', ''agnostic_symbol_types'',
                  ''agnostic_positions_in_staff''}. k \<notin> set (map fst members)) \<longrightarrow>
      (\<exists>k opened. k \<in> {''region_dictionary'', ''agnostic_symbol_types'',
                          ''agnostic_positions_in_staff''}
         \<and> k \<notin> set (map fst members)
         \<and> Package_init (Some tree) =
             (Inl (MuRETException (''No root element named '' @ k @ [CHR 0x27])), opened)
         \<and> set opened \<subseteq> {''dictionary.json''}))
   \<and> (child tree ''dictionary.json'' = Some (File (Some (JObj members)))
      \<and> map_of members ''region_dictionary'' = Some (JArr (map JStr rs))
      \<and> map_of members ''agnostic_symbol_types'' = Some (JArr (map JStr ss))
      \<and> map_of members ''agnostic_positions_in_staff'' = Some (JArr (map JStr ps))
      \<and> child tree ''files'' = Some (Dir entries)
      \<and> walk [] (Dir entries) = [] \<longrightarrow>
      Package_init (Some tree) =
        (Inl (MuRETException ''Empty MuRET training set package''),
         [''dictionary.json'', ''dictionary.json'', ''dictionary.json'']))"
proof (intro conjI impI)
  show "Package_init None = (Inl IOError, [])"
    by (simp add: Package_init_def)
next
  assume "child tree ''dictionary.json'' = None"
  then show "Package_init (Some tree) = (Inl IOError, [])"
    by (simp add: Package_init_def)
next
  assume "child tree ''dictionary.json'' = Some (File (Some (JObj members)))
      \<and> (\<forall>k \<in> {''region_dictionary'', ''agnostic_symbol_types'',
                  ''agnostic_positions_in_staff''}.
             k \<notin> set (map fst members)
             \<or> (\<exists>labels. map_of members k = Some (JArr (map JStr labels))))
      \<and> (\<exists>k \<in> {''region_dictionary'', ''agnostic_symbol_types'',
                  ''agnostic_positions_in_staff''}. k \<notin> set (map fst members))"
  then show "\<exists>k opened. k \<in> {''region_dictionary'', ''agnostic_symbol_types'',
                          ''agnostic_positions_in_staff''}
         \<and> k \<notin> set (map fst members)
         \<and> Package_init (Some tree) =
             (Inl (MuRETException (''No root element named '' @ k @ [CHR 0x27])), opened)
         \<and> set opened \<subseteq> {''dictionary.json''}"
    using Package_init_missing_root [of tree members] by blast
next
  assume "child tree ''dictionary.json'' = Some (File (Some (JObj members)))
      \<and> map_of members ''region_dictionary'' = Some (JArr (map JStr rs))
      \<and> map_of members ''agnostic_symbol_types'' = Some (JArr (map JStr ss))
      \<and> map_of members ''agnostic_positions_in_staff'' = Some (JArr (map JStr ps))
      \<and> child tree ''files'' = Some (Dir entries)
      \<and> walk [] (Dir entries) = []"
  then show "Package_init (Some tree) =
        (Inl (MuRETException ''Empty MuRET training set package''),
         [''dictionary.json'', ''dictionary.json'', ''dictionary.json''])"
    using Package_init_empty [of tree members rs ss ps entries] by blast
qed


theorem package_construction_failures_witness:
  "Package_init (Some (Dir [(''files'', Dir [])])) = (Inl IOError, [])
   \<and> (\<exists>k opened.
         k \<in> {''region_dictionary'', ''agnostic_symbol_types'', ''agnostic_positions_in_staff''}
         \<and> k \<notin> set (map fst [(''region_dictionary'', JArr [JStr ''page'']),
                                (''agnostic_positions_in_staff'', JArr [JStr ''L2''])])
         \<and> Package_init
             (Some (Dir [(''dictionary.json'',
                          File (Some (JObj [(''region_dictionary'', JArr [JStr ''page'']),
                                            (''agnostic_positions_in_staff'', JArr [JStr ''L2''])]))),
                         (''files'', Dir [(''a.json'', File (Some JNull))])])) =
             (Inl (MuRETException (''No root element named '' @ k @ [CHR 0x27])), opened)
         \<and> set opened \<subseteq> {''dictionary.json''})
   \<and> Package_init
       (Some (Dir [(''dictionary.json'', File (Some example_dictionary)),
                   (''files'', Dir [(''notes.txt'', File None), (''empty'', Dir [])])])) =
       (Inl (MuRETException ''Empty MuRET training set package''),
        [''dictionary.json'', ''dictionary.json'', ''dictionary.json''])"
proof -
  let ?members = "[(''region_dictionary'', JArr [JStr ''page'']),
                   (''agnostic_positions_in_staff'', JArr [JStr ''L2''])]"
  let ?tree = "Dir [(''dictionary.json'', File (Some (JObj ?members))),
                    (''files'', Dir [(''a.json'', File (Some JNull))])]"
  have none: "child (Dir [(''files'', Dir [])]) ''dictionary.json'' = None"
    by simp
  have first: "Package_init (Some (Dir [(''files'', Dir [])])) = (Inl IOError, [])"
    by (rule package_construction_failures [THEN conjunct2, THEN conjunct1, THEN mp]) (rule none)
  have d: "child ?tree ''dictionary.json'' = Some (File (Some (JObj ?members)))"
    by simp
  have a1: "map_of ?members ''region_dictionary'' = Some (JArr (map JStr [''page'']))"
    and a2: "map_of ?members ''agnostic_positions_in_staff'' = Some (JArr (map JStr [''L2'']))"
    by simp_all
  have arrays:
    "\<exists>labels. map_of ?members ''region_dictionary'' = Some (JArr (map JStr labels))"
    "\<exists>labels. map_of ?members ''agnostic_positions_in_staff'' = Some (JArr (map JStr labels))"
    by (rule exI, rule a1) (rule exI, rule a2)
  have absent: "''agnostic_symbol_types'' \<notin> set (map fst ?members)"
    by simp
  have ok: "\<forall>k \<in> {''region_dictionary'', ''agnostic_symbol_types'',
                    ''agnostic_positions_in_staff''}.
               k \<notin> set (map fst ?members)
               \<or> (\<exists>labels. map_of ?members k = Some (JArr (map JStr labels)))"
  proof
    fix k :: string
    assume "k \<in> {''region_dictionary'', ''agnostic_symbol_types'',
                    ''agnostic_positions_in_staff''}"
    then have "k = ''region_dictionary'' \<or> k = ''agnostic_symbol_types''
               \<or> k = ''agnostic_positions_in_staff''"
      by simp
    then show "k \<notin> set (map fst ?members)
               \<or> (\<exists>labels. map_of ?members k = Some (JArr (map JStr labels)))"
      using arrays absent by (elim disjE) (simp_all only: simp_thms)
  qed
  have missing: "\<exists>k \<in> {''region_dictionary'', ''agnostic_symbol_types'',
                          ''agnostic_positions_in_staff''}. k \<notin> set (map fst ?members)"
    by (rule bexI [of _ "''agnostic_symbol_types''"]) (rule absent, simp)
  have second: "\<exists>k opened.
         k \<in> {''region_dictionary'', ''agnostic_symbol_types'', ''agnostic_positions_in_staff''}
         \<and> k \<notin> set (map fst ?members)
         \<and> Package_init (Some ?tree) =
             (Inl (MuRETException (''No root element named '' @ k @ [CHR 0x27])), opened)
         \<and> set opened \<subseteq> {''dictionary.json''}"
    by (rule package_construction_failures
          [THEN conjunct2, THEN conjunct2, THEN conjunct1, THEN mp])
       (intro conjI d ok missing)
  let ?full = "[(''region_dictionary'', JArr [JStr ''page'', JStr ''staff'']),
                (''agnostic_symbol_types'', JArr [JStr ''clef.G'']),
                (''agnostic_positions_in_staff'', JArr [JStr ''L2''])]"
  let ?entries = "[(''notes.txt'', File None), (''empty'', Dir [])]"
  let ?empty = "Dir [(''dictionary.json'', File (Some example_dictionary)), (''files'', Dir ?entries)]"
  have e1: "child ?empty ''dictionary.json'' = Some (File (Some (JObj ?full)))"
    by (simp add: example_dictionary_def)
  have e2: "map_of ?full ''region_dictionary'' = Some (JArr (map JStr [''page'', ''staff'']))"
    "map_of ?full ''agnostic_symbol_types'' = Some (JArr (map JStr [''clef.G'']))"
    "map_of ?full ''agnostic_positions_in_staff'' = Some (JArr (map JStr [''L2'']))"
    by simp_all
  have e3: "child ?empty ''files'' = Some (Dir ?entries)"
    by simp
  have e4: "walk [] (Dir ?entries) = []"
    by (simp add: endswith_def)
  have third: "Package_init (Some ?empty) =
       (Inl (MuRETException ''Empty MuRET training set package''),
        [''dictionary.json'', ''dictionary.json'', ''dictionary.json''])"
    by (rule package_construction_failures
          [where members = ?full and rs = "[''page'', ''staff'']" and ss = "[''clef.G'']"
             and ps = "[''L2'']" and entries = ?entries,
           THEN conjunct2, THEN conjunct2, THEN conjunct2, THEN mp])
       (intro conjI e1 e2 e3 e4)
  from first second third show ?thesis
    by (intro conjI)
qed

section \<open>Properties of image acquisition\<close>















end
